theory Spec2Isabelle
  imports Main
begin

section \<open>Go strings and the standard-library functions the command calls\<close>

text \<open>
  A Go string is a sequence of bytes; \<^typ>\<open>string\<close> (a list of 8-bit characters) is
  used for it, so \<^term>\<open>length\<close> is Go's \<open>len\<close>.
\<close>

definition byte :: "char \<Rightarrow> nat" where
  "byte c = of_char c"

text \<open>\<open>utf8.RuneSelf = 0x80\<close>: bytes below it are ASCII.\<close>

definition RuneSelf :: nat where
  "RuneSelf = 128"

definition isASCII :: "string \<Rightarrow> bool" where
  "isASCII s = list_all (\<lambda>c. byte c < RuneSelf) s"

definition isUpper :: "char \<Rightarrow> bool" where
  "isUpper c = (byte (CHR ''A'') \<le> byte c \<and> byte c \<le> byte (CHR ''Z''))"

definition lowerByte :: "char \<Rightarrow> char" where
  "lowerByte c = (if isUpper c then char_of (byte c + (byte (CHR ''a'') - byte (CHR ''A''))) else c)"

text \<open>
  The Unicode case tables of Go's \<open>unicode\<close> package are not part of the repository.
  They enter the model as a parameter: what \<open>strings.ToLower\<close> returns on a string
  that holds a non-ASCII byte (\<open>strings.Map(unicode.ToLower, s)\<close>), and what the
  rune-by-rune tail of \<open>strings.EqualFold\<close> returns on the two remaining suffixes
  once a non-ASCII byte has been met. On ASCII strings neither is consulted.
\<close>

record unicode =
  Map_ToLower :: "string \<Rightarrow> string"
  foldTail :: "string \<Rightarrow> string \<Rightarrow> bool"

text \<open>\<open>strings.ToLower\<close>: the ASCII fast path maps \<open>A..Z\<close> to \<open>a..z\<close> bytewise.\<close>

definition ToLower :: "unicode \<Rightarrow> string \<Rightarrow> string" where
  "ToLower U s = (if isASCII s then map lowerByte s else Map_ToLower U s)"

text \<open>
  \<open>strings.EqualFold\<close>: the loop over the common prefix compares ASCII bytes up to
  case; the first non-ASCII byte on either side hands the two remaining suffixes to the
  Unicode tail; when one string is exhausted the lengths decide.
\<close>

fun EqualFold :: "unicode \<Rightarrow> string \<Rightarrow> string \<Rightarrow> bool" where
  "EqualFold U (sr # s) (tr # t) =
     (if byte sr \<ge> RuneSelf \<or> byte tr \<ge> RuneSelf then foldTail U (sr # s) (tr # t)
      else if tr = sr then EqualFold U s t
      else (let lo = (if byte tr < byte sr then tr else sr);
                hi = (if byte tr < byte sr then sr else tr)
            in if isUpper lo \<and> byte hi = byte lo + (byte (CHR ''a'') - byte (CHR ''A''))
               then EqualFold U s t else False))"
| "EqualFold U [] [] = True"
| "EqualFold U [] (tr # t) = False"
| "EqualFold U (sr # s) [] = False"

text \<open>\<open>strings.HasPrefix(s, prefix)\<close>.\<close>

definition HasPrefix :: "string \<Rightarrow> string \<Rightarrow> bool" where
  "HasPrefix s p = (length s \<ge> length p \<and> take (length p) s = p)"

text \<open>
  \<open>strings.ReplaceAll(s, old, new)\<close> for a pattern \<open>old\<close> of one byte, the only way
  the command calls it (\<open>" "\<close> replaced by \<open>""\<close>).
\<close>

definition ReplaceAll :: "string \<Rightarrow> char \<Rightarrow> string \<Rightarrow> string" where
  "ReplaceAll s old new = concat (map (\<lambda>c. if c = old then new else [c]) s)"

subsection \<open>Decimal conversion\<close>

definition isDigit :: "char \<Rightarrow> bool" where
  "isDigit c = (byte (CHR ''0'') \<le> byte c \<and> byte c \<le> byte (CHR ''9''))"

definition digitVal :: "char \<Rightarrow> int" where
  "digitVal c = int (byte c) - int (byte (CHR ''0''))"

definition digitChar :: "nat \<Rightarrow> char" where
  "digitChar d = char_of (byte (CHR ''0'') + d)"

definition parseDigits :: "string \<Rightarrow> int" where
  "parseDigits ds = foldl (\<lambda>n ch. n * 10 + digitVal ch) 0 ds"

text \<open>
  \<open>strconv.Atoi\<close> on a platform whose \<open>int\<close> has 64 bits: an optional sign, then one
  or more decimal digits, and a value in \<open>[-2^63, 2^63 - 1]\<close>. The caller only tests
  \<open>err == nil\<close>, so the syntax and range errors are both \<^term>\<open>None\<close>.
\<close>

definition intSize :: nat where
  "intSize = 64"

definition Atoi :: "string \<Rightarrow> int option" where
  "Atoi s =
     (case s of
        [] \<Rightarrow> None
      | c # cs \<Rightarrow>
          (let neg = (c = CHR ''-'');
               ds = (if c = CHR ''-'' \<or> c = CHR ''+'' then cs else s)
           in if ds = [] then None
              else if \<not> list_all isDigit ds then None
              else (let un = parseDigits ds
                    in if \<not> neg \<and> un \<ge> 2 ^ (intSize - 1) then None
                       else if neg \<and> un > 2 ^ (intSize - 1) then None
                       else Some (if neg then - un else un))))"

text \<open>
  Decimal rendering of an integer, as \<open>strconv.Itoa\<close> and \<open>(*big.Int).String\<close>
  produce it: no leading zeros, a leading \<open>-\<close> for a negative number.
\<close>

function natDigits :: "int \<Rightarrow> string" where
  "natDigits n =
     (if n < 10 then [digitChar (nat n)]
      else natDigits (n div 10) @ [digitChar (nat (n mod 10))])"
  by pat_completeness auto
termination
  by (relation "measure nat") auto

declare natDigits.simps [simp del]

definition Itoa :: "int \<Rightarrow> string" where
  "Itoa i = (if i < 0 then CHR ''-'' # natDigits (- i) else natDigits i)"

section \<open>Errors\<close>

text \<open>
  Every error value the command builds itself is a constructor carrying the arguments
  of the call that builds it (\<open>errs.RequiredWithFlag(ctx, flag, required)\<close> reads
  "flag \<open>--flag\<close> requires the \<open>--required\<close> flag"). An error handed over by a
  collaborator outside the file is \<open>Collaborator site message\<close>; \<open>errors.Wrap\<close> keeps
  the wrapped error. \<open>Panic\<close> is a Go run-time panic.
\<close>

datatype error =
    ReasonCodeOutOfBounds int int int
  | UnrecognizedReasonCode string
  | IncompatibleFlagWithFlag string string
  | RequiredWithFlag string string
  | RequiredFlag string
  | RequiredUnlessFlag string string
  | InvalidFlagValue string string string
  | NoPositionalArguments string string
  | TooFewArguments
  | TooManyArguments
  | TokenSubjectMismatch string string
  | ErrorNew string
  | Wrap error string
  | Collaborator string string
  | Panic string

section \<open>Reason codes\<close>

text \<open>The constants of \<open>golang.org/x/crypto/ocsp\<close> (RFC 5280); 7 is not assigned.\<close>

definition ocsp_Unspecified :: int where "ocsp_Unspecified = 0"
definition ocsp_KeyCompromise :: int where "ocsp_KeyCompromise = 1"
definition ocsp_CACompromise :: int where "ocsp_CACompromise = 2"
definition ocsp_AffiliationChanged :: int where "ocsp_AffiliationChanged = 3"
definition ocsp_Superseded :: int where "ocsp_Superseded = 4"
definition ocsp_CessationOfOperation :: int where "ocsp_CessationOfOperation = 5"
definition ocsp_CertificateHold :: int where "ocsp_CertificateHold = 6"
definition ocsp_RemoveFromCRL :: int where "ocsp_RemoveFromCRL = 8"
definition ocsp_PrivilegeWithdrawn :: int where "ocsp_PrivilegeWithdrawn = 9"
definition ocsp_AACompromise :: int where "ocsp_AACompromise = 10"

text \<open>\<open>RevocationReasonCodes\<close> (revoke.go, lines 475-488).\<close>

definition RevocationReasonCodes :: "string \<rightharpoonup> int" where
  "RevocationReasonCodes = map_of
     [(''unspecified'', ocsp_Unspecified),
      (''keycompromise'', ocsp_KeyCompromise),
      (''cacompromise'', ocsp_CACompromise),
      (''affiliationchanged'', ocsp_AffiliationChanged),
      (''superseded'', ocsp_Superseded),
      (''cessationofoperation'', ocsp_CessationOfOperation),
      (''certificatehold'', ocsp_CertificateHold),
      (''removefromcrl'', ocsp_RemoveFromCRL),
      (''privilegewithdrawn'', ocsp_PrivilegeWithdrawn),
      (''aacompromise'', ocsp_AACompromise)]"

text \<open>
  \<open>ReasonCodeToNum\<close> (lines 490-514). Where the source returns an error together with
  \<open>-1\<close> or \<open>0\<close>, the result here is the error alone: no caller reads the number then.
\<close>

definition ReasonCodeToNum :: "unicode \<Rightarrow> string \<Rightarrow> error + int" where
  "ReasonCodeToNum U rc =
     (if rc = '''' then Inr 0
      else case Atoi rc of
        Some code \<Rightarrow>
          if code < ocsp_Unspecified \<or> code > ocsp_AACompromise
          then Inl (ReasonCodeOutOfBounds code ocsp_Unspecified ocsp_AACompromise)
          else Inr code
      | None \<Rightarrow>
          (case RevocationReasonCodes (ToLower U (ReplaceAll rc (CHR '' '') '''')) of
             None \<Rightarrow> Inl (UnrecognizedReasonCode rc)
           | Some code \<Rightarrow> Inr code))"

section \<open>Command line, collaborators and effects\<close>

text \<open>
  \<open>cli.Context\<close>: the positional arguments, the flags the command reads, and the two
  names used in an error message.
\<close>

record Context =
  Args :: "string list"
  flag_cert :: string
  flag_key :: string
  flag_reason :: string
  flag_reasonCode :: string
  flag_token :: string
  flag_ca_config :: string
  flag_offline :: bool
  flag_ca_url :: string
  flag_root :: string
  App_Name :: string
  Command_Name :: string

text \<open>\<open>ctx.Args().Get(n)\<close> is the empty string when there is no such argument.\<close>

definition Get :: "string list \<Rightarrow> nat \<Rightarrow> string" where
  "Get a n = (if n < length a then a ! n else '''')"

definition NArg :: "Context \<Rightarrow> nat" where
  "NArg ctx = length (Args ctx)"

text \<open>\<open>errs.NumberOfArguments(ctx, required)\<close>.\<close>

definition NumberOfArguments :: "Context \<Rightarrow> nat \<Rightarrow> error option" where
  "NumberOfArguments ctx required =
     (let n = NArg ctx
      in if n < required then Some TooFewArguments
         else if n > required then Some TooManyArguments
         else None)"

text \<open>
  Values the command never looks into (the parsed token, keys, PEM blocks, certificate
  pools, the offline authority, the online client) are opaque handles; a handle is a
  name. Of an X.509 certificate the command reads the serial number, of a TLS
  certificate the length of its chain.
\<close>

type_synonym JSONWebToken = string
type_synonym PrivateKey = string
type_synonym pem_Block = string
type_synonym CertPool = string
type_synonym OfflineCA = string
type_synonym Client = string

record revokeTokenClaims =
  SHA :: string
  Subject :: string
  Audience :: "string list"

record x509_Certificate =
  SerialNumber :: int

record tls_Certificate =
  Certificate :: "string list"

datatype ClientOption = WithRootSHA256 string | WithRootFile string

datatype CaClient = OfflineClient "OfflineCA option" | OnlineClient Client

datatype proxy = ProxyFromEnvironment

record tls_Config =
  RootCAs :: CertPool
  PreferServerCipherSuites :: bool
  Certificates :: "tls_Certificate list"

record http_Transport =
  Proxy :: proxy
  TLSClientConfig :: tls_Config

record RevokeRequest =
  Serial :: string
  Reason :: string
  ReasonCode :: int
  OTT :: string
  Passive :: bool

record revokeFlow =
  offlineCA :: "OfflineCA option"
  offline :: bool

text \<open>
  The collaborators outside the file, as functions of their arguments: what each
  returns (\<open>Inl\<close> an error message) is fixed for one run of the command.
  \<open>ParseCaURLIfExists\<close> gives the CA URL of the command line, the empty string when
  there is none; \<open>Stat\<close> is true when \<open>os.Stat\<close> returns no error; \<open>GetRootCAPath\<close> is
  the default location of the root certificate.
\<close>

record env =
  uni :: unicode
  ParseCaURLIfExists :: "Context \<Rightarrow> string + string"
  NewOfflineCA :: "Context \<Rightarrow> string \<Rightarrow> string + OfflineCA"
  VerifyClientCert :: "OfflineCA \<Rightarrow> string \<Rightarrow> string \<Rightarrow> string + unit"
  OfflineCA_GenerateToken :: "OfflineCA \<Rightarrow> Context \<Rightarrow> string \<Rightarrow> string + string"
  ReadCertificateBundle :: "string \<Rightarrow> string + x509_Certificate list"
  Prompt :: "string + string"
  NewTokenFlow :: "Context \<Rightarrow> string \<Rightarrow> string \<Rightarrow> string \<Rightarrow> string + string"
  GetRootCAPath :: string
  Stat :: "string \<Rightarrow> bool"
  ParseSigned :: "string \<Rightarrow> string + JSONWebToken"
  UnsafeClaimsWithoutVerification :: "JSONWebToken \<Rightarrow> string + revokeTokenClaims"
  NewClient :: "string \<Rightarrow> ClientOption list \<Rightarrow> string + Client"
  ReadFile :: "string \<Rightarrow> string + string"
  pemutil_Read :: "string \<Rightarrow> string + PrivateKey"
  pemutil_Serialize :: "PrivateKey \<Rightarrow> string + pem_Block"
  EncodeToMemory :: "pem_Block \<Rightarrow> string"
  X509KeyPair :: "string \<Rightarrow> string \<Rightarrow> string + tls_Certificate"
  ReadCertPool :: "string \<Rightarrow> string + CertPool"
  Client_Revoke :: "CaClient \<Rightarrow> RevokeRequest \<Rightarrow> http_Transport option \<Rightarrow> string + unit"

text \<open>
  Every call that touches the file system, the network or the terminal leaves an event;
  a run returns its result together with the events in the order they happened.
\<close>

datatype event =
    Ev_NewOfflineCA string
  | Ev_VerifyClientCert string string
  | Ev_ReadCertificateBundle string
  | Ev_OfflineGenerateToken string
  | Ev_Prompt
  | Ev_NewTokenFlow string string string
  | Ev_Stat string
  | Ev_ReadFile string
  | Ev_pemutil_Read string
  | Ev_ReadCertPool string
  | Ev_PrintSelected string string
  | Ev_NewClient string "ClientOption list"
  | Ev_ClientRevoke CaClient RevokeRequest "http_Transport option"
  | Ev_Printf string

text \<open>
  The events that go, or may go, to the file system: every call that is handed a path
  or works on the configuration of the offline authority. Building a client reads a
  file when it is given a root file (\<open>ca.WithRootFile\<close>); with \<open>ca.WithRootSHA256\<close> the
  root is fetched from the authority and checked against the fingerprint.
\<close>

fun reads_file :: "ClientOption \<Rightarrow> bool" where
  "reads_file (WithRootFile p) = True"
| "reads_file (WithRootSHA256 h) = False"

fun file_access :: "event \<Rightarrow> bool" where
  "file_access (Ev_NewOfflineCA p) = True"
| "file_access (Ev_VerifyClientCert c k) = True"
| "file_access (Ev_ReadCertificateBundle p) = True"
| "file_access (Ev_Stat p) = True"
| "file_access (Ev_ReadFile p) = True"
| "file_access (Ev_pemutil_Read p) = True"
| "file_access (Ev_ReadCertPool p) = True"
| "file_access (Ev_OfflineGenerateToken subject) = True"
| "file_access (Ev_NewTokenFlow subject u root) = True"
| "file_access (Ev_NewClient u options) = list_ex reads_file options"
| "file_access ev = False"

type_synonym 'a io = "(error + 'a) \<times> event list"

definition ret :: "'a \<Rightarrow> 'a io" where
  "ret x = (Inr x, [])"

definition fail :: "error \<Rightarrow> 'a io" where
  "fail e = (Inl e, [])"

definition emit :: "event \<Rightarrow> unit io" where
  "emit ev = (Inr (), [ev])"

definition andThen :: "'a io \<Rightarrow> ('a \<Rightarrow> 'b io) \<Rightarrow> 'b io" where
  "andThen m k =
     (case m of
        (Inl e, t) \<Rightarrow> (Inl e, t)
      | (Inr x, t) \<Rightarrow> (case k x of (r, t') \<Rightarrow> (r, t @ t')))"

text \<open>A collaborator's answer without an effect, and with one.\<close>

definition compute :: "string \<Rightarrow> string + 'a \<Rightarrow> 'a io" where
  "compute site r = (case r of Inl m \<Rightarrow> Inl (Collaborator site m) | Inr x \<Rightarrow> Inr x, [])"

definition perform :: "event \<Rightarrow> string \<Rightarrow> string + 'a \<Rightarrow> 'a io" where
  "perform ev site r = (case r of Inl m \<Rightarrow> Inl (Collaborator site m) | Inr x \<Rightarrow> Inr x, [ev])"

definition stat :: "env \<Rightarrow> string \<Rightarrow> bool io" where
  "stat env p = (Inr (Stat env p), [Ev_Stat p])"

text \<open>\<open>errors.Wrap(err, msg)\<close> on the error of a call.\<close>

definition wrap :: "string \<Rightarrow> 'a io \<Rightarrow> 'a io" where
  "wrap msg m = (case m of (Inl e, t) \<Rightarrow> (Inl (Wrap e msg), t) | (Inr x, t) \<Rightarrow> (Inr x, t))"

definition errParsingToken :: string where
  "errParsingToken = ''error parsing flag '' @ [CHR 0x27] @ ''--token'' @ [CHR 0x27]"

section \<open>The revoke flow\<close>

text \<open>\<open>newRevokeFlow\<close> (lines 290-315).\<close>

definition newRevokeFlow :: "env \<Rightarrow> Context \<Rightarrow> string \<Rightarrow> string \<Rightarrow> revokeFlow io" where
  "newRevokeFlow env ctx certFile keyFile =
     (let offline = flag_offline ctx
      in if offline then
           (let caConfig = flag_ca_config ctx
            in if caConfig = '''' then fail (InvalidFlagValue ''ca-config'' '''' '''')
               else
                 andThen (perform (Ev_NewOfflineCA caConfig) ''cautils.NewOfflineCA''
                            (NewOfflineCA env ctx caConfig)) (\<lambda>offlineClient.
                 andThen (if length certFile > 0 \<or> length keyFile > 0
                          then perform (Ev_VerifyClientCert certFile keyFile) ''VerifyClientCert''
                                 (VerifyClientCert env offlineClient certFile keyFile)
                          else ret ()) (\<lambda>_.
                 ret \<lparr>offlineCA = Some offlineClient, offline = offline\<rparr>)))
         else ret \<lparr>offlineCA = None, offline = offline\<rparr>)"

text \<open>\<open>ca.NewClient(caURL, options...)\<close>, returned as the \<open>cautils.CaClient\<close> of \<open>getClient\<close>.\<close>

definition newClient :: "env \<Rightarrow> string \<Rightarrow> ClientOption list \<Rightarrow> CaClient io" where
  "newClient env caURL options =
     andThen (perform (Ev_NewClient caURL options) ''ca.NewClient'' (NewClient env caURL options))
       (\<lambda>c. ret (OnlineClient c))"

text \<open>
  \<open>getClient\<close> (lines 317-367). \<open>standard\<close> is the code after the \<open>if\<close> on the token
  (lines 357-366), reached from both of its branches.
\<close>

definition getClient :: "env \<Rightarrow> revokeFlow \<Rightarrow> Context \<Rightarrow> string \<Rightarrow> string \<Rightarrow> CaClient io" where
  "getClient env f ctx serial token =
     (if offline f then ret (OfflineClient (offlineCA f))
      else
        andThen (compute ''flags.ParseCaURLIfExists'' (ParseCaURLIfExists env ctx)) (\<lambda>caURL.
        let rootFile = flag_root ctx;
            options = [];
            standard =
              andThen (if rootFile = ''''
                       then (let rootFile = GetRootCAPath env
                             in andThen (stat env rootFile) (\<lambda>found.
                                if \<not> found then fail (RequiredFlag ''root'') else ret rootFile))
                       else ret rootFile) (\<lambda>rootFile.
              let options = options @ [WithRootFile rootFile]
              in andThen (emit (Ev_PrintSelected ''CA'' caURL)) (\<lambda>_.
                 newClient env caURL options))
        in if length token > 0 then
             andThen (wrap errParsingToken
                        (compute ''jose.ParseSigned'' (ParseSigned env token))) (\<lambda>tok.
             andThen (wrap errParsingToken
                        (compute ''UnsafeClaimsWithoutVerification''
                           (UnsafeClaimsWithoutVerification env tok))) (\<lambda>claims.
             if \<not> EqualFold (uni env) (Subject claims) serial
             then fail (TokenSubjectMismatch (Subject claims) serial)
             else if length (SHA claims) > 0 \<and> length (Audience claims) > 0
                     \<and> HasPrefix (ToLower (uni env) (Audience claims ! 0)) ''http''
             then (let caURL = (if caURL = '''' then Audience claims ! 0 else caURL);
                       options = options @ [WithRootSHA256 (SHA claims)]
                   in andThen (emit (Ev_PrintSelected ''CA'' caURL)) (\<lambda>_.
                      newClient env caURL options))
             else standard))
           else if caURL = '''' then fail (RequiredFlag ''ca-url'')
           else standard))"

text \<open>
  \<open>GenerateToken\<close> (lines 369-399) writes the prompted serial number through its pointer
  argument; the model returns the token together with the subject as it stands
  afterwards.
\<close>

definition GenerateToken :: "env \<Rightarrow> revokeFlow \<Rightarrow> Context \<Rightarrow> string \<Rightarrow> (string \<times> string) io" where
  "GenerateToken env f ctx subject =
     (if offline f then
        (case offlineCA f of
           None \<Rightarrow> fail (Panic ''nil pointer dereference'')
         | Some oca \<Rightarrow>
             andThen (perform (Ev_OfflineGenerateToken subject) ''OfflineCA.GenerateToken''
                        (OfflineCA_GenerateToken env oca ctx subject)) (\<lambda>tok.
             ret (tok, subject)))
      else
        andThen (compute ''flags.ParseCaURLIfExists'' (ParseCaURLIfExists env ctx)) (\<lambda>caURL.
        if caURL = '''' then fail (RequiredUnlessFlag ''ca-url'' ''token'')
        else
          (let root = flag_root ctx
           in andThen (if root = ''''
                       then (let root = GetRootCAPath env
                             in andThen (stat env root) (\<lambda>found.
                                if \<not> found then fail (RequiredUnlessFlag ''root'' ''token'')
                                else ret root))
                       else ret root) (\<lambda>root.
              andThen (if subject = ''''
                       then perform Ev_Prompt ''ui.Prompt'' (Prompt env)
                       else ret subject) (\<lambda>subject.
              andThen (perform (Ev_NewTokenFlow subject caURL root) ''cautils.NewTokenFlow''
                         (NewTokenFlow env ctx subject caURL root)) (\<lambda>tok.
              ret (tok, subject)))))))"

text \<open>\<open>Revoke\<close> (lines 401-473).\<close>

definition Revoke :: "env \<Rightarrow> revokeFlow \<Rightarrow> Context \<Rightarrow> string \<Rightarrow> string \<Rightarrow> unit io" where
  "Revoke env f ctx serial token =
     andThen (getClient env f ctx serial token) (\<lambda>client.
     let reason = flag_reason ctx
     in case ReasonCodeToNum (uni env) (flag_reasonCode ctx) of
          Inl err \<Rightarrow> fail err
        | Inr reasonCode \<Rightarrow>
            andThen
              (if token = '''' then
                 (let certFile = flag_cert ctx; keyFile = flag_key ctx
                  in andThen (wrap ''error reading certificate''
                                (perform (Ev_ReadFile certFile) ''os.ReadFile''
                                   (ReadFile env certFile))) (\<lambda>certPEMBytes.
                     andThen (wrap ''error parsing key''
                                (perform (Ev_pemutil_Read keyFile) ''pemutil.Read''
                                   (pemutil_Read env keyFile))) (\<lambda>key.
                     andThen (wrap ''error serializing key''
                                (compute ''pemutil.Serialize'' (pemutil_Serialize env key))) (\<lambda>keyBlock.
                     andThen (wrap ''error loading certificate key pair''
                                (compute ''tls.X509KeyPair''
                                   (X509KeyPair env certPEMBytes (EncodeToMemory env keyBlock)))) (\<lambda>cert.
                     if length (Certificate cert) = 0
                     then fail (ErrorNew ''error loading certificate: certificate chain is empty'')
                     else
                       (let root = flag_root ctx
                        in andThen (if root = ''''
                                    then (let root = GetRootCAPath env
                                          in andThen (stat env root) (\<lambda>found.
                                             if \<not> found
                                             then fail (RequiredUnlessFlag ''root'' ''token'')
                                             else ret root))
                                    else ret root) (\<lambda>root.
                           andThen (perform (Ev_ReadCertPool root) ''x509util.ReadCertPool''
                                      (ReadCertPool env root)) (\<lambda>rootCAs.
                           ret (Some \<lparr>Proxy = ProxyFromEnvironment,
                                      TLSClientConfig =
                                        \<lparr>RootCAs = rootCAs,
                                         PreferServerCipherSuites = True,
                                         Certificates = [cert]\<rparr>\<rparr>)))))))))
               else ret None) (\<lambda>tr.
            let req = \<lparr>Serial = serial, Reason = reason, ReasonCode = reasonCode,
                       OTT = token, Passive = True\<rparr>
            in perform (Ev_ClientRevoke client req tr) ''client.Revoke''
                 (Client_Revoke env client req tr)))"

definition revokedMessage :: "string \<Rightarrow> string" where
  "revokedMessage serial =
     ''Certificate with Serial Number '' @ serial @ '' has been revoked.'' @ [CHR 0x0A]"

text \<open>
  \<open>revokeCertificateAction\<close> (lines 209-278). The two calls of
  \<open>errs.IncompatibleFlagWithFlag\<close> in the certificate branch build an error value that is
  dropped; the bindings \<open>_\<close> below are those values. \<open>cert[0]\<close> on an empty bundle is a
  run-time panic.
\<close>

definition revokeCertificateAction :: "env \<Rightarrow> Context \<Rightarrow> unit io" where
  "revokeCertificateAction env ctx =
     (let args = Args ctx;
          serial = Get args 0;
          certFile = flag_cert ctx;
          keyFile = flag_key ctx;
          token = flag_token ctx;
          offline = flag_offline ctx
      in case ReasonCodeToNum (uni env) (flag_reasonCode ctx) of
           Inl err \<Rightarrow> fail err
         | Inr _ \<Rightarrow>
             if offline \<and> token \<noteq> '''' then fail (IncompatibleFlagWithFlag ''offline'' ''token'')
             else
               andThen (newRevokeFlow env ctx certFile keyFile) (\<lambda>flow.
               andThen
                 (if length certFile > 0 \<or> length keyFile > 0 then
                    (if NArg ctx > 0
                     then fail (NoPositionalArguments (App_Name ctx) (Command_Name ctx))
                     else if certFile = '''' then fail (RequiredWithFlag ''key'' ''cert'')
                     else if keyFile = '''' then fail (RequiredWithFlag ''cert'' ''key'')
                     else
                       (let _ = (if length token > 0
                                 then Some (IncompatibleFlagWithFlag ''cert'' ''token'') else None);
                            _ = (if length serial > 0
                                 then Some (IncompatibleFlagWithFlag ''cert'' ''serial'') else None)
                        in andThen (perform (Ev_ReadCertificateBundle certFile)
                                      ''pemutil.ReadCertificateBundle''
                                      (ReadCertificateBundle env certFile)) (\<lambda>cert.
                           case cert of
                             [] \<Rightarrow> fail (Panic ''index out of range'')
                           | c # _ \<Rightarrow> ret (Itoa (SerialNumber c), token))))
                  else
                    (case NumberOfArguments ctx 1 of
                       Some err \<Rightarrow> fail err
                     | None \<Rightarrow>
                         if token = '''' then
                           andThen (GenerateToken env flow ctx serial) (\<lambda>(token, serial).
                           ret (serial, token))
                         else ret (serial, token))) (\<lambda>(serial, token).
               andThen (Revoke env flow ctx serial token) (\<lambda>_.
               emit (Ev_Printf (revokedMessage serial))))))"


section \<open>Auxiliary predicates\<close>

text \<open>The characters of a decimal rendering: digits and the minus sign.\<close>

definition plainChar :: "char \<Rightarrow> bool" where
  "plainChar c = (isDigit c \<or> c = CHR ''-'')"

text \<open>
  Two blocks of the source, named so that lemmas can speak of them: the part of
  \<open>Revoke\<close> that builds the mTLS transport when there is no token, and the part of
  \<open>revokeCertificateAction\<close> that settles the serial number and the token from either
  the certificate or the positional argument.
\<close>

definition transportFor :: "env \<Rightarrow> Context \<Rightarrow> string \<Rightarrow> http_Transport option io" where
  "transportFor env ctx token =
     (if token = '''' then
        (let certFile = flag_cert ctx; keyFile = flag_key ctx
         in andThen (wrap ''error reading certificate''
                       (perform (Ev_ReadFile certFile) ''os.ReadFile''
                          (ReadFile env certFile))) (\<lambda>certPEMBytes.
            andThen (wrap ''error parsing key''
                       (perform (Ev_pemutil_Read keyFile) ''pemutil.Read''
                          (pemutil_Read env keyFile))) (\<lambda>key.
            andThen (wrap ''error serializing key''
                       (compute ''pemutil.Serialize'' (pemutil_Serialize env key))) (\<lambda>keyBlock.
            andThen (wrap ''error loading certificate key pair''
                       (compute ''tls.X509KeyPair''
                          (X509KeyPair env certPEMBytes (EncodeToMemory env keyBlock)))) (\<lambda>cert.
            if length (Certificate cert) = 0
            then fail (ErrorNew ''error loading certificate: certificate chain is empty'')
            else
              (let root = flag_root ctx
               in andThen (if root = ''''
                           then (let root = GetRootCAPath env
                                 in andThen (stat env root) (\<lambda>found.
                                    if \<not> found
                                    then fail (RequiredUnlessFlag ''root'' ''token'')
                                    else ret root))
                           else ret root) (\<lambda>root.
                  andThen (perform (Ev_ReadCertPool root) ''x509util.ReadCertPool''
                             (ReadCertPool env root)) (\<lambda>rootCAs.
                  ret (Some \<lparr>Proxy = ProxyFromEnvironment,
                             TLSClientConfig =
                               \<lparr>RootCAs = rootCAs,
                                PreferServerCipherSuites = True,
                                Certificates = [cert]\<rparr>\<rparr>)))))))))
      else ret None)"

definition serialAndToken :: "env \<Rightarrow> Context \<Rightarrow> revokeFlow \<Rightarrow> (string \<times> string) io" where
  "serialAndToken env ctx flow =
     (let args = Args ctx;
          serial = Get args 0;
          certFile = flag_cert ctx;
          keyFile = flag_key ctx;
          token = flag_token ctx
      in if length certFile > 0 \<or> length keyFile > 0 then
           (if NArg ctx > 0
            then fail (NoPositionalArguments (App_Name ctx) (Command_Name ctx))
            else if certFile = '''' then fail (RequiredWithFlag ''key'' ''cert'')
            else if keyFile = '''' then fail (RequiredWithFlag ''cert'' ''key'')
            else
              (let _ = (if length token > 0
                        then Some (IncompatibleFlagWithFlag ''cert'' ''token'') else None);
                   _ = (if length serial > 0
                        then Some (IncompatibleFlagWithFlag ''cert'' ''serial'') else None)
               in andThen (perform (Ev_ReadCertificateBundle certFile)
                             ''pemutil.ReadCertificateBundle''
                             (ReadCertificateBundle env certFile)) (\<lambda>cert.
                  case cert of
                    [] \<Rightarrow> fail (Panic ''index out of range'')
                  | c # _ \<Rightarrow> ret (Itoa (SerialNumber c), token))))
         else
           (case NumberOfArguments ctx 1 of
              Some err \<Rightarrow> fail err
            | None \<Rightarrow>
                if token = '''' then
                  andThen (GenerateToken env flow ctx serial) (\<lambda>(token, serial).
                  ret (serial, token))
                else ret (serial, token)))"

text \<open>The request leaving for the authority, and the calls that build the transport.\<close>

fun dispatch :: "event \<Rightarrow> bool" where
  "dispatch (Ev_ClientRevoke c req tr) = True"
| "dispatch ev = False"


section \<open>A sample environment\<close>

text \<open>
  A concrete environment on which the theorems below are exercised. Two tokens parse:
  \<open>boot-123\<close> carries a root fingerprint and an HTTPS audience, \<open>plain-123\<close> carries
  neither; both have subject \<open>123\<close>. The default root file exists, \<open>leaf.crt\<close> holds one
  certificate with serial number 123, and \<open>leaf.key\<close> its key. The sample strings are
  ASCII, so the Unicode parameter is never consulted.
\<close>

definition sample_unicode :: unicode where
  "sample_unicode = \<lparr>Map_ToLower = (\<lambda>s. s), foldTail = (\<lambda>s t. s = t)\<rparr>"

definition boot_claims :: revokeTokenClaims where
  "boot_claims = \<lparr>SHA = ''abc'', Subject = ''123'', Audience = [''https://ca.example/revoke'']\<rparr>"

definition plain_claims :: revokeTokenClaims where
  "plain_claims = \<lparr>SHA = '''', Subject = ''123'', Audience = [''step-ca'']\<rparr>"

definition sample_env :: env where
  "sample_env =
     \<lparr>uni = sample_unicode,
      ParseCaURLIfExists = (\<lambda>ctx. Inr (flag_ca_url ctx)),
      NewOfflineCA = (\<lambda>ctx cfg. Inr ''offline-ca''),
      VerifyClientCert = (\<lambda>ca c k. Inr ()),
      OfflineCA_GenerateToken = (\<lambda>ca ctx subject. Inr ''generated''),
      ReadCertificateBundle =
        (\<lambda>p. if p = ''leaf.crt'' then Inr [\<lparr>SerialNumber = 123\<rparr>] else Inl ''no such file''),
      Prompt = Inl ''no terminal'',
      NewTokenFlow = (\<lambda>ctx subject caURL root. Inr ''generated''),
      GetRootCAPath = ''root_ca.crt'',
      Stat = (\<lambda>p. p = ''root_ca.crt''),
      ParseSigned =
        (\<lambda>t. if t = ''boot-123'' \<or> t = ''plain-123'' \<or> t = ''generated'' then Inr t
             else Inl ''malformed''),
      UnsafeClaimsWithoutVerification =
        (\<lambda>t. if t = ''boot-123'' then Inr boot_claims else Inr plain_claims),
      NewClient = (\<lambda>caURL options. Inr ''client''),
      ReadFile = (\<lambda>p. if p = ''leaf.crt'' then Inr ''pem'' else Inl ''no such file''),
      pemutil_Read = (\<lambda>p. if p = ''leaf.key'' then Inr ''key'' else Inl ''no such file''),
      pemutil_Serialize = (\<lambda>k. Inr k),
      EncodeToMemory = (\<lambda>b. b),
      X509KeyPair = (\<lambda>c k. Inr \<lparr>Certificate = [c]\<rparr>),
      ReadCertPool = (\<lambda>p. Inr ''pool''),
      Client_Revoke = (\<lambda>c req tr. Inr ())\<rparr>"

definition sample_ctx :: Context where
  "sample_ctx =
     \<lparr>Args = [], flag_cert = '''', flag_key = '''', flag_reason = '''', flag_reasonCode = '''',
      flag_token = '''', flag_ca_config = '''', flag_offline = False, flag_ca_url = '''',
      flag_root = '''', App_Name = ''step'', Command_Name = ''revoke''\<rparr>"

definition online :: revokeFlow where
  "online = \<lparr>offlineCA = None, offline = False\<rparr>"

section \<open>Decimal strings\<close>

lemma byte_simps [simp]:
  "byte (CHR ''0'') = 48" "byte (CHR ''9'') = 57" "byte (CHR ''A'') = 65"
  "byte (CHR ''Z'') = 90" "byte (CHR ''a'') = 97" "byte (CHR ''-'') = 45"
  "byte (CHR ''+'') = 43" "byte (CHR '' '') = 32"
  by (simp_all add: byte_def)

lemma byte_digitChar: "d < 10 \<Longrightarrow> byte (digitChar d) = 48 + d"
  by (simp add: digitChar_def byte_def)

lemma isDigit_digitChar: "d < 10 \<Longrightarrow> isDigit (digitChar d)"
  by (simp add: isDigit_def byte_digitChar)

lemma digitVal_digitChar: "d < 10 \<Longrightarrow> digitVal (digitChar d) = int d"
  by (simp add: digitVal_def byte_digitChar)

lemma natDigits_digits: "list_all isDigit (natDigits n)"
  by (induction n rule: natDigits.induct) (subst natDigits.simps, simp add: isDigit_digitChar)

lemma natDigits_nonempty: "natDigits n \<noteq> []"
  by (subst natDigits.simps) simp

lemma parseDigits_snoc: "parseDigits (ds @ [c]) = parseDigits ds * 10 + digitVal c"
  by (simp add: parseDigits_def)

lemma parseDigits_natDigits: "0 \<le> n \<Longrightarrow> parseDigits (natDigits n) = n"
proof (induction n rule: natDigits.induct)
  case (1 n)
  show ?case
  proof (cases "n < 10")
    case True
    with 1(2) show ?thesis
      by (subst natDigits.simps) (simp add: parseDigits_def digitVal_digitChar)
  next
    case False
    with 1 show ?thesis
      by (subst natDigits.simps) (simp add: parseDigits_snoc digitVal_digitChar)
  qed
qed

lemma isDigit_not_sign: "isDigit c \<Longrightarrow> c \<noteq> CHR ''-'' \<and> c \<noteq> CHR ''+''"
  by (auto simp: isDigit_def)

lemma natDigits_hd: "\<exists>c cs. natDigits n = c # cs \<and> isDigit c"
  using natDigits_digits [of n] natDigits_nonempty [of n] by (cases "natDigits n") auto

text \<open>Within the range of a 64-bit \<open>int\<close>, \<open>Atoi\<close> reads back what \<open>Itoa\<close> writes.\<close>

lemma Atoi_Itoa: "- (2 ^ 63) \<le> i \<Longrightarrow> i < 2 ^ 63 \<Longrightarrow> Atoi (Itoa i) = Some i"
proof (cases "i < 0")
  case True
  assume "- (2 ^ 63) \<le> i"
  with True show ?thesis
    using natDigits_digits [of "- i"] natDigits_nonempty [of "- i"]
    by (simp add: Atoi_def Itoa_def parseDigits_natDigits intSize_def)
next
  case False
  assume "i < 2 ^ 63"
  moreover obtain c cs where h: "natDigits i = c # cs" "isDigit c"
    using natDigits_hd by blast
  ultimately show ?thesis
    using False natDigits_digits [of i] isDigit_not_sign [OF h(2)] parseDigits_natDigits [of i]
    by (simp add: Atoi_def Itoa_def intSize_def Let_def)
qed

text \<open>Outside that range \<open>Atoi\<close> reports a range error.\<close>

lemma Atoi_Itoa_range: "i < - (2 ^ 63) \<or> 2 ^ 63 \<le> i \<Longrightarrow> Atoi (Itoa i) = None"
proof (cases "i < 0")
  case True
  assume "i < - (2 ^ 63) \<or> 2 ^ 63 \<le> i"
  with True have "i < - (2 ^ 63)" by simp
  with True show ?thesis
    using natDigits_digits [of "- i"] natDigits_nonempty [of "- i"]
    by (simp add: Atoi_def Itoa_def parseDigits_natDigits intSize_def)
next
  case False
  assume "i < - (2 ^ 63) \<or> 2 ^ 63 \<le> i"
  with False have big: "2 ^ 63 \<le> i" by simp
  obtain c cs where h: "natDigits i = c # cs" "isDigit c"
    using natDigits_hd by blast
  show ?thesis
    using False big natDigits_digits [of i] isDigit_not_sign [OF h(2)] parseDigits_natDigits [of i] h(1)
    by (simp add: Atoi_def Itoa_def intSize_def Let_def)
qed

section \<open>Running a sequence of calls\<close>

lemma andThen_Inl [simp]: "andThen (Inl e, t) k = (Inl e, t)"
  by (simp add: andThen_def)

lemma andThen_Inr [simp]: "andThen (Inr x, t) k = (fst (k x), t @ snd (k x))"
  by (simp add: andThen_def split: prod.splits)

lemma andThen_ret [simp]: "andThen (ret x) k = k x"
  by (simp add: ret_def)

lemma andThen_fail [simp]: "andThen (fail e) k = fail e"
  by (simp add: fail_def)

lemma compute_simps [simp]:
  "compute site (Inl m) = (Inl (Collaborator site m), [])"
  "compute site (Inr x) = (Inr x, [])"
  by (simp_all add: compute_def)

lemma perform_simps [simp]:
  "perform ev site (Inl m) = (Inl (Collaborator site m), [ev])"
  "perform ev site (Inr x) = (Inr x, [ev])"
  by (simp_all add: perform_def)

lemma wrap_simps [simp]:
  "wrap msg (Inl e, t) = (Inl (Wrap e msg), t)"
  "wrap msg (Inr x, t) = (Inr x, t)"
  by (simp_all add: wrap_def)

lemma fst_snd_basic [simp]:
  "fst (ret x) = Inr x" "snd (ret x) = []"
  "fst (fail e) = Inl e" "snd (fail e) = []"
  "fst (emit ev) = Inr ()" "snd (emit ev) = [ev]"
  "fst (stat env p) = Inr (Stat env p)" "snd (stat env p) = [Ev_Stat p]"
  by (simp_all add: ret_def fail_def emit_def stat_def)

lemma andThen_emit [simp]: "andThen (emit ev) k = (fst (k ()), ev # snd (k ()))"
  by (simp add: emit_def)

lemma andThen_stat [simp]:
  "andThen (stat env p) k = (fst (k (Stat env p)), Ev_Stat p # snd (k (Stat env p)))"
  by (simp add: stat_def)

lemma newClient_eq:
  "newClient env u opts =
     (case NewClient env u opts of
        Inl m \<Rightarrow> Inl (Collaborator ''ca.NewClient'' m)
      | Inr c \<Rightarrow> Inr (OnlineClient c), [Ev_NewClient u opts])"
  by (cases "NewClient env u opts") (simp_all add: newClient_def ret_def)

lemma snd_newClient [simp]: "snd (newClient env u opts) = [Ev_NewClient u opts]"
  by (simp add: newClient_eq)

lemma fst_newClient_not_flag [simp]: "fst (newClient env u opts) \<noteq> Inl (RequiredFlag flag)"
  by (simp add: newClient_eq split: sum.splits)

section \<open>Client resolution\<close>

text \<open>
  What \<open>getClient\<close> does in online mode with a token whose claims parse: the
  cross-check, then the client pinned to the claimed fingerprint when the claims carry
  a usable hint, and the standard resolution through a root file otherwise.
\<close>

lemma getClient_token:
  assumes "\<not> offline f" and "token \<noteq> ''''"
    and "ParseCaURLIfExists env ctx = Inr caURL"
    and "ParseSigned env token = Inr tok"
    and "UnsafeClaimsWithoutVerification env tok = Inr cl"
  shows "getClient env f ctx serial token =
     (if \<not> EqualFold (uni env) (Subject cl) serial
      then (Inl (TokenSubjectMismatch (Subject cl) serial), [])
      else if SHA cl \<noteq> '''' \<and> Audience cl \<noteq> []
              \<and> HasPrefix (ToLower (uni env) (Audience cl ! 0)) ''http''
      then (let u = (if caURL = '''' then Audience cl ! 0 else caURL)
            in (fst (newClient env u [WithRootSHA256 (SHA cl)]),
                [Ev_PrintSelected ''CA'' u, Ev_NewClient u [WithRootSHA256 (SHA cl)]]))
      else if flag_root ctx \<noteq> ''''
      then (fst (newClient env caURL [WithRootFile (flag_root ctx)]),
            [Ev_PrintSelected ''CA'' caURL, Ev_NewClient caURL [WithRootFile (flag_root ctx)]])
      else if Stat env (GetRootCAPath env)
      then (fst (newClient env caURL [WithRootFile (GetRootCAPath env)]),
            [Ev_Stat (GetRootCAPath env), Ev_PrintSelected ''CA'' caURL,
             Ev_NewClient caURL [WithRootFile (GetRootCAPath env)]])
      else (Inl (RequiredFlag ''root''), [Ev_Stat (GetRootCAPath env)]))"
  using assms by (simp add: getClient_def Let_def fail_def)

section \<open>Case folding on ASCII strings\<close>





section \<open>Results and events of composed calls\<close>

lemma fst_andThen:
  "fst (andThen m k) = (case fst m of Inl e \<Rightarrow> Inl e | Inr x \<Rightarrow> fst (k x))"
  by (cases m; cases "fst m") auto

lemma snd_andThen:
  "snd (andThen m k) = snd m @ (case fst m of Inl e \<Rightarrow> [] | Inr x \<Rightarrow> snd (k x))"
  by (cases m; cases "fst m") auto

lemma fst_perform:
  "fst (perform ev site r) = (case r of Inl m \<Rightarrow> Inl (Collaborator site m) | Inr x \<Rightarrow> Inr x)"
  by (simp add: perform_def)

lemma snd_perform [simp]: "snd (perform ev site r) = [ev]"
  by (simp add: perform_def)

lemma fst_compute:
  "fst (compute site r) = (case r of Inl m \<Rightarrow> Inl (Collaborator site m) | Inr x \<Rightarrow> Inr x)"
  by (simp add: compute_def)

lemma snd_compute [simp]: "snd (compute site r) = []"
  by (simp add: compute_def)

lemma fst_wrap:
  "fst (wrap msg m) = (case fst m of Inl e \<Rightarrow> Inl (Wrap e msg) | Inr x \<Rightarrow> Inr x)"
  by (cases m; cases "fst m") auto

lemma snd_wrap [simp]: "snd (wrap msg m) = snd m"
  by (cases m; cases "fst m") auto

lemmas run_simps = fst_andThen snd_andThen fst_perform fst_compute fst_wrap

lemma in_andThen:
  assumes "ev \<in> set (snd (andThen m k))"
  obtains "ev \<in> set (snd m)" | x where "fst m = Inr x" and "ev \<in> set (snd (k x))"
  using assms by (cases "fst m") (auto simp: snd_andThen)

lemma andThen_fails: "fst m = Inl e \<Longrightarrow> fst (andThen m k) = Inl e"
  by (simp add: fst_andThen)

subsection \<open>Where a request can be dispatched\<close>

lemma getClient_no_dispatch:
  "ev \<in> set (snd (getClient env f ctx serial token)) \<Longrightarrow> \<not> dispatch ev"
  by (auto simp: getClient_def Let_def run_simps split: sum.splits if_splits)


lemma transportFor_no_dispatch:
  "ev \<in> set (snd (transportFor env ctx token)) \<Longrightarrow> \<not> dispatch ev"
  by (auto simp: transportFor_def Let_def run_simps split: sum.splits if_splits)



lemma newRevokeFlow_no_dispatch:
  "ev \<in> set (snd (newRevokeFlow env ctx certFile keyFile)) \<Longrightarrow> \<not> dispatch ev"
  by (auto simp: newRevokeFlow_def Let_def run_simps split: sum.splits if_splits)

lemma GenerateToken_no_dispatch:
  "ev \<in> set (snd (GenerateToken env f ctx subject)) \<Longrightarrow> \<not> dispatch ev"
  by (auto simp: GenerateToken_def Let_def run_simps split: sum.splits if_splits option.splits)

lemma serialAndToken_no_dispatch:
  "ev \<in> set (snd (serialAndToken env ctx flow)) \<Longrightarrow> \<not> dispatch ev"
  using GenerateToken_no_dispatch [of ev env flow ctx "Get (Args ctx) 0"]
  by (auto simp: serialAndToken_def Let_def run_simps
           split: sum.splits if_splits option.splits list.splits prod.splits)

lemma Revoke_alt:
  "Revoke env f ctx serial token =
     andThen (getClient env f ctx serial token) (\<lambda>client.
     case ReasonCodeToNum (uni env) (flag_reasonCode ctx) of
       Inl err \<Rightarrow> fail err
     | Inr reasonCode \<Rightarrow>
         andThen (transportFor env ctx token) (\<lambda>tr.
         perform (Ev_ClientRevoke client
                    \<lparr>Serial = serial, Reason = flag_reason ctx, ReasonCode = reasonCode,
                     OTT = token, Passive = True\<rparr> tr) ''client.Revoke''
           (Client_Revoke env client
              \<lparr>Serial = serial, Reason = flag_reason ctx, ReasonCode = reasonCode,
               OTT = token, Passive = True\<rparr> tr)))"
  unfolding Revoke_def transportFor_def Let_def by (rule refl)

lemma revokeCertificateAction_alt:
  "revokeCertificateAction env ctx =
     (case ReasonCodeToNum (uni env) (flag_reasonCode ctx) of
        Inl err \<Rightarrow> fail err
      | Inr _ \<Rightarrow>
          if flag_offline ctx \<and> flag_token ctx \<noteq> ''''
          then fail (IncompatibleFlagWithFlag ''offline'' ''token'')
          else
            andThen (newRevokeFlow env ctx (flag_cert ctx) (flag_key ctx)) (\<lambda>flow.
            andThen (serialAndToken env ctx flow) (\<lambda>(serial, token).
            andThen (Revoke env flow ctx serial token) (\<lambda>_.
            emit (Ev_Printf (revokedMessage serial))))))"
  unfolding revokeCertificateAction_def serialAndToken_def Let_def by (rule refl)

text \<open>A dispatched request is the one \<open>Revoke\<close> builds from its arguments.\<close>

lemma Revoke_dispatch_event:
  assumes "Ev_ClientRevoke c req tr \<in> set (snd (Revoke env f ctx serial token))"
  shows "fst (getClient env f ctx serial token) = Inr c
     \<and> fst (transportFor env ctx token) = Inr tr
     \<and> ReasonCodeToNum (uni env) (flag_reasonCode ctx) = Inr (ReasonCode req)
     \<and> req = \<lparr>Serial = serial, Reason = flag_reason ctx, ReasonCode = ReasonCode req,
              OTT = token, Passive = True\<rparr>"
  using assms unfolding Revoke_alt
proof (cases rule: in_andThen)
  case 1
  then show ?thesis using getClient_no_dispatch by fastforce
next
  case (2 client)
  show ?thesis
  proof (cases "ReasonCodeToNum (uni env) (flag_reasonCode ctx)")
    case (Inl err)
    with 2 show ?thesis by simp
  next
    case (Inr reasonCode)
    with 2 have "Ev_ClientRevoke c req tr \<in> set (snd (andThen (transportFor env ctx token) (\<lambda>tr.
         perform (Ev_ClientRevoke client
                    \<lparr>Serial = serial, Reason = flag_reason ctx, ReasonCode = reasonCode,
                     OTT = token, Passive = True\<rparr> tr) ''client.Revoke''
           (Client_Revoke env client
              \<lparr>Serial = serial, Reason = flag_reason ctx, ReasonCode = reasonCode,
               OTT = token, Passive = True\<rparr> tr))))"
      by simp
    then show ?thesis
    proof (cases rule: in_andThen)
      case 1
      then show ?thesis using transportFor_no_dispatch by fastforce
    next
      case (2 tr')
      with Inr \<open>fst (getClient env f ctx serial token) = Inr client\<close> show ?thesis by auto
    qed
  qed
qed

text \<open>
  A request dispatched by the whole command comes from the one call of \<open>Revoke\<close>, on
  the serial number and token settled before it.
\<close>

lemma action_dispatch_event:
  assumes "Ev_ClientRevoke c req tr \<in> set (snd (revokeCertificateAction env ctx))"
  shows "\<exists>flow serial token.
           fst (newRevokeFlow env ctx (flag_cert ctx) (flag_key ctx)) = Inr flow
         \<and> fst (serialAndToken env ctx flow) = Inr (serial, token)
         \<and> Ev_ClientRevoke c req tr \<in> set (snd (Revoke env flow ctx serial token))"
proof (cases "ReasonCodeToNum (uni env) (flag_reasonCode ctx)")
  case (Inl err)
  with assms show ?thesis by (simp add: revokeCertificateAction_alt)
next
  case (Inr n)
  show ?thesis
  proof (cases "flag_offline ctx \<and> flag_token ctx \<noteq> ''''")
    case True
    with assms Inr show ?thesis by (simp add: revokeCertificateAction_alt)
  next
    case False
    with assms Inr have "Ev_ClientRevoke c req tr \<in> set (snd
        (andThen (newRevokeFlow env ctx (flag_cert ctx) (flag_key ctx)) (\<lambda>flow.
         andThen (serialAndToken env ctx flow) (\<lambda>(serial, token).
         andThen (Revoke env flow ctx serial token) (\<lambda>_.
         emit (Ev_Printf (revokedMessage serial)))))))"
      by (simp add: revokeCertificateAction_alt)
    then show ?thesis
    proof (cases rule: in_andThen)
      case 1
      then show ?thesis using newRevokeFlow_no_dispatch by fastforce
    next
      case (2 flow)
      from 2(2) show ?thesis
      proof (cases rule: in_andThen)
        case 1
        then show ?thesis using serialAndToken_no_dispatch by fastforce
      next
        case (2 st)
        obtain serial token where st: "st = (serial, token)" by (cases st)
        from 2(2) have "Ev_ClientRevoke c req tr \<in> set (snd (Revoke env flow ctx serial token))"
          unfolding st by (auto elim!: in_andThen)
        with 2(1) \<open>fst (newRevokeFlow env ctx (flag_cert ctx) (flag_key ctx)) = Inr flow\<close>
        show ?thesis unfolding st by blast
      qed
    qed
  qed
qed

section \<open>Reason-code resolution\<close>

lemma Atoi_nonempty: "Atoi rc = Some n \<Longrightarrow> rc \<noteq> ''''"
  by (auto simp: Atoi_def)

lemma ReasonCodeToNum_Atoi:
  "Atoi rc = Some n \<Longrightarrow>
   ReasonCodeToNum U rc = (if n < 0 \<or> 10 < n then Inl (ReasonCodeOutOfBounds n 0 10) else Inr n)"
  using Atoi_nonempty [of rc n]
  by (simp add: ReasonCodeToNum_def ocsp_Unspecified_def ocsp_AACompromise_def)

lemma ReasonCodeToNum_lookup:
  "rc \<noteq> '''' \<Longrightarrow> Atoi rc = None \<Longrightarrow>
   ReasonCodeToNum U rc =
     (case RevocationReasonCodes (ToLower U (ReplaceAll rc (CHR '' '') '''')) of
        None \<Rightarrow> Inl (UnrecognizedReasonCode rc) | Some code \<Rightarrow> Inr code)"
  by (simp add: ReasonCodeToNum_def)

lemma Itoa_plain: "list_all plainChar (Itoa i)"
  using natDigits_digits [of i] natDigits_digits [of "- i"]
  by (auto simp: Itoa_def plainChar_def list_all_iff)

lemma plainChar_facts: "plainChar c \<Longrightarrow> c \<noteq> CHR '' '' \<and> byte c < RuneSelf \<and> lowerByte c = c"
  by (auto simp: plainChar_def isDigit_def RuneSelf_def lowerByte_def isUpper_def)

text \<open>Normalisation leaves a string of digits and minus signs as it is.\<close>

lemma plain_normal:
  assumes "list_all plainChar s"
  shows "ToLower U (ReplaceAll s (CHR '' '') '''') = s"
proof -
  have r: "ReplaceAll s (CHR '' '') '''' = s"
    using assms by (induction s) (auto simp: ReplaceAll_def dest: plainChar_facts)
  have "isASCII s"
    using assms by (induction s) (auto simp: isASCII_def dest: plainChar_facts)
  moreover have "map lowerByte s = s"
    using assms by (induction s) (auto dest: plainChar_facts)
  ultimately show ?thesis by (simp add: r ToLower_def)
qed

text \<open>Every key of the table holds a letter.\<close>

lemma table_keys: "RevocationReasonCodes s = Some c \<Longrightarrow> \<not> list_all plainChar s"
  by (auto simp: RevocationReasonCodes_def plainChar_def isDigit_def byte_def split: if_splits)

lemma ReasonCodeToNum_Itoa_big:
  assumes "i < - (2 ^ 63) \<or> 2 ^ 63 \<le> i"
  shows "ReasonCodeToNum U (Itoa i) = Inl (UnrecognizedReasonCode (Itoa i))"
proof -
  have "Itoa i \<noteq> ''''"
    using natDigits_nonempty by (simp add: Itoa_def)
  moreover have "RevocationReasonCodes (Itoa i) = None"
    using table_keys [of "Itoa i"] Itoa_plain [of i]
    by (cases "RevocationReasonCodes (Itoa i)") auto
  ultimately show ?thesis
    using Atoi_Itoa_range [OF assms] plain_normal [OF Itoa_plain, of U i]
    by (simp add: ReasonCodeToNum_lookup)
qed

text \<open>
  C4 (as amended). \<open>ReasonCodeToNum\<close> maps the empty string to 0. For every integer
  \<open>n\<close> in \<open>[0,10]\<close> it maps the decimal string of \<open>n\<close> to \<open>n\<close>, 7 included. For every
  integer \<open>n\<close> outside \<open>[0,10]\<close> that fits a 64-bit \<open>int\<close> it fails on the decimal string
  of \<open>n\<close> with the out-of-bounds error; more generally, whatever \<open>strconv.Atoi\<close> parses
  is returned when it lies in \<open>[0,10]\<close> and rejected as out of bounds otherwise. The
  decimal string of an integer that does not fit a 64-bit \<open>int\<close> is not parsed by
  \<open>Atoi\<close> and is rejected as an unrecognized reason code. Any other non-empty string is
  lowercased, stripped of spaces and looked up in the table, and fails with the
  unrecognized-reason-code error naming the string when the table has no such key.
\<close>

theorem ReasonCodeToNum_resolution:
  "ReasonCodeToNum U '''' = Inr 0
   \<and> (\<forall>n. 0 \<le> n \<and> n \<le> 10 \<longrightarrow> ReasonCodeToNum U (Itoa n) = Inr n)
   \<and> (\<forall>n. (n < 0 \<or> 10 < n) \<and> - (2 ^ 63) \<le> n \<and> n < 2 ^ 63 \<longrightarrow>
        ReasonCodeToNum U (Itoa n) = Inl (ReasonCodeOutOfBounds n 0 10))
   \<and> (\<forall>n. n < - (2 ^ 63) \<or> 2 ^ 63 \<le> n \<longrightarrow>
        ReasonCodeToNum U (Itoa n) = Inl (UnrecognizedReasonCode (Itoa n)))
   \<and> (\<forall>rc n. Atoi rc = Some n \<longrightarrow>
        ReasonCodeToNum U rc =
          (if n < 0 \<or> 10 < n then Inl (ReasonCodeOutOfBounds n 0 10) else Inr n))
   \<and> (\<forall>rc. rc \<noteq> '''' \<and> Atoi rc = None \<longrightarrow>
        ReasonCodeToNum U rc =
          (case RevocationReasonCodes (ToLower U (ReplaceAll rc (CHR '' '') '''')) of
             None \<Rightarrow> Inl (UnrecognizedReasonCode rc) | Some code \<Rightarrow> Inr code))"
proof (intro conjI allI impI)
  show "ReasonCodeToNum U '''' = Inr 0"
    by (simp add: ReasonCodeToNum_def)
next
  fix n :: int assume "0 \<le> n \<and> n \<le> 10"
  then show "ReasonCodeToNum U (Itoa n) = Inr n"
    using Atoi_Itoa [of n] by (simp add: ReasonCodeToNum_Atoi)
next
  fix n :: int assume "(n < 0 \<or> 10 < n) \<and> - (2 ^ 63) \<le> n \<and> n < 2 ^ 63"
  then show "ReasonCodeToNum U (Itoa n) = Inl (ReasonCodeOutOfBounds n 0 10)"
    using Atoi_Itoa [of n] by (auto simp: ReasonCodeToNum_Atoi)
next
  fix n :: int assume "n < - (2 ^ 63) \<or> 2 ^ 63 \<le> n"
  then show "ReasonCodeToNum U (Itoa n) = Inl (UnrecognizedReasonCode (Itoa n))"
    by (rule ReasonCodeToNum_Itoa_big)
next
  fix rc n assume "Atoi rc = Some n"
  then show "ReasonCodeToNum U rc =
      (if n < 0 \<or> 10 < n then Inl (ReasonCodeOutOfBounds n 0 10) else Inr n)"
    by (rule ReasonCodeToNum_Atoi)
next
  fix rc assume "rc \<noteq> '''' \<and> Atoi rc = None"
  then show "ReasonCodeToNum U rc =
      (case RevocationReasonCodes (ToLower U (ReplaceAll rc (CHR '' '') '''')) of
         None \<Rightarrow> Inl (UnrecognizedReasonCode rc) | Some code \<Rightarrow> Inr code)"
    by (simp add: ReasonCodeToNum_lookup)
qed

text \<open>
  The theorem at 7, at 11, at \<open>2^63\<close>, at \<open>+5\<close>, at a name written with a capital and
  a space, and at a string the table does not know.
\<close>

theorem ReasonCodeToNum_resolution_witness:
  "ReasonCodeToNum sample_unicode (Itoa 7) = Inr 7
   \<and> ReasonCodeToNum sample_unicode (Itoa 11) = Inl (ReasonCodeOutOfBounds 11 0 10)
   \<and> ReasonCodeToNum sample_unicode (Itoa 9223372036854775808)
       = Inl (UnrecognizedReasonCode (Itoa 9223372036854775808))
   \<and> Atoi ''+5'' = Some 5
   \<and> ReasonCodeToNum sample_unicode ''+5'' = Inr 5
   \<and> Atoi ''Key Compromise'' = None
   \<and> ReasonCodeToNum sample_unicode ''Key Compromise'' = Inr 1
   \<and> Atoi ''bogus'' = None
   \<and> ReasonCodeToNum sample_unicode ''bogus'' = Inl (UnrecognizedReasonCode ''bogus'')"
proof -
  note T = ReasonCodeToNum_resolution [of sample_unicode]
  have a5: "Atoi ''+5'' = Some 5" by code_simp
  have ak: "Atoi ''Key Compromise'' = None" by code_simp
  have ab: "Atoi ''bogus'' = None" by code_simp
  have lk: "RevocationReasonCodes
      (ToLower sample_unicode (ReplaceAll ''Key Compromise'' (CHR '' '') '''')) = Some 1"
    by code_simp
  have lb: "RevocationReasonCodes
      (ToLower sample_unicode (ReplaceAll ''bogus'' (CHR '' '') '''')) = None"
    by code_simp
  have "ReasonCodeToNum sample_unicode (Itoa 7) = Inr 7"
    using T by simp
  moreover have "ReasonCodeToNum sample_unicode (Itoa 11) = Inl (ReasonCodeOutOfBounds 11 0 10)"
    using T by simp
  moreover have "ReasonCodeToNum sample_unicode (Itoa 9223372036854775808)
       = Inl (UnrecognizedReasonCode (Itoa 9223372036854775808))"
    using T by simp
  moreover have "ReasonCodeToNum sample_unicode ''+5'' = Inr 5"
    using T a5 by simp
  moreover have "ReasonCodeToNum sample_unicode ''Key Compromise'' = Inr 1"
    using T ak lk by simp
  moreover have "ReasonCodeToNum sample_unicode ''bogus'' = Inl (UnrecognizedReasonCode ''bogus'')"
    using T ab lb by simp
  ultimately show ?thesis
    using a5 ak ab by simp
qed

text \<open>
  The claim as first stated fails at the decimal string of \<open>2^63\<close>: an integer outside
  \<open>[0,10]\<close>, rejected as an unrecognized reason code and not as out of bounds.
\<close>

theorem ReasonCodeToNum_big_counterexample:
  "ReasonCodeToNum sample_unicode ''9223372036854775808''
     = Inl (UnrecognizedReasonCode ''9223372036854775808'')"
  by code_simp

text \<open>
  C1 (as amended). In online mode with a token present whose claims parse and whose
  subject matches the serial number: if the claims carry a non-empty root fingerprint
  and a non-empty audience whose first entry, lowercased, begins with \<open>http\<close>, the
  client resolver builds the client with the trust anchor pinned to the claimed
  fingerprint and touches no file, whether or not the caller supplied a CA URL. The
  audience entry is adopted as the CA URL exactly when the caller supplied none;
  otherwise the caller's URL is kept.
\<close>

theorem getClient_token_hint:
  assumes "\<not> offline f" and "token \<noteq> ''''"
    and "ParseCaURLIfExists env ctx = Inr caURL"
    and "ParseSigned env token = Inr tok"
    and "UnsafeClaimsWithoutVerification env tok = Inr cl"
    and "EqualFold (uni env) (Subject cl) serial"
    and "SHA cl \<noteq> ''''" and "Audience cl \<noteq> []"
    and "HasPrefix (ToLower (uni env) (Audience cl ! 0)) ''http''"
  shows "getClient env f ctx serial token =
           (fst (newClient env (if caURL = '''' then Audience cl ! 0 else caURL)
                   [WithRootSHA256 (SHA cl)]),
            [Ev_PrintSelected ''CA'' (if caURL = '''' then Audience cl ! 0 else caURL),
             Ev_NewClient (if caURL = '''' then Audience cl ! 0 else caURL)
               [WithRootSHA256 (SHA cl)]])
         \<and> list_all (\<lambda>ev. \<not> file_access ev) (snd (getClient env f ctx serial token))"
  using assms by (simp add: getClient_token [OF assms(1-5)] Let_def)

text \<open>
  The theorem on the sample token \<open>boot-123\<close> without a CA URL: the audience becomes
  the CA URL.
\<close>

theorem getClient_token_hint_witness:
  "getClient sample_env online sample_ctx ''123'' ''boot-123'' =
     (Inr (OnlineClient ''client''),
      [Ev_PrintSelected ''CA'' ''https://ca.example/revoke'',
       Ev_NewClient ''https://ca.example/revoke'' [WithRootSHA256 ''abc'']])"
proof -
  have h1: "\<not> offline online" by code_simp
  have h2: "''boot-123'' \<noteq> ''''" by simp
  have h3: "ParseCaURLIfExists sample_env sample_ctx = Inr ''''" by code_simp
  have h4: "ParseSigned sample_env ''boot-123'' = Inr ''boot-123''" by code_simp
  have h5: "UnsafeClaimsWithoutVerification sample_env ''boot-123'' = Inr boot_claims"
    by (simp add: sample_env_def)
  have h6: "EqualFold (uni sample_env) (Subject boot_claims) ''123''" by code_simp
  have h7: "SHA boot_claims \<noteq> ''''" by code_simp
  have h8: "Audience boot_claims \<noteq> []" by code_simp
  have h9: "HasPrefix (ToLower (uni sample_env) (Audience boot_claims ! 0)) ''http''"
    by code_simp
  have v: "Audience boot_claims ! 0 = ''https://ca.example/revoke''" "SHA boot_claims = ''abc''"
    by (simp_all add: boot_claims_def)
  have n: "fst (newClient sample_env ''https://ca.example/revoke'' [WithRootSHA256 ''abc''])
             = Inr (OnlineClient ''client'')"
    by code_simp
  show ?thesis
    using getClient_token_hint [OF h1 h2 h3 h4 h5 h6 h7 h8 h9] by (simp add: v n)
qed

text \<open>
  The claim as first stated fails when the caller supplies a CA URL together with the
  token \<open>boot-123\<close>: the URL hint is not used, the fingerprint hint still is, and no
  root file is looked for.
\<close>

theorem getClient_explicit_url_counterexample:
  "ParseCaURLIfExists sample_env (sample_ctx\<lparr>flag_ca_url := ''https://other.example''\<rparr>)
     = Inr ''https://other.example''
   \<and> getClient sample_env online (sample_ctx\<lparr>flag_ca_url := ''https://other.example''\<rparr>)
       ''123'' ''boot-123'' =
     (Inr (OnlineClient ''client''),
      [Ev_PrintSelected ''CA'' ''https://other.example'',
       Ev_NewClient ''https://other.example'' [WithRootSHA256 ''abc'']])"
  by code_simp





text \<open>
  C8. In online mode with no token, client resolution without a CA URL fails with the
  required-flag error for \<open>ca-url\<close>, before any effect. With a token present that
  error is never returned.
\<close>

theorem getClient_ca_url_required:
  "(\<not> offline f \<and> ParseCaURLIfExists env ctx = Inr '''' \<longrightarrow>
      getClient env f ctx serial '''' = (Inl (RequiredFlag ''ca-url''), []))
   \<and> (token \<noteq> '''' \<longrightarrow> fst (getClient env f ctx serial token) \<noteq> Inl (RequiredFlag ''ca-url''))"
proof (intro conjI impI)
  assume "\<not> offline f \<and> ParseCaURLIfExists env ctx = Inr ''''"
  then show "getClient env f ctx serial '''' = (Inl (RequiredFlag ''ca-url''), [])"
    by (simp add: getClient_def fail_def)
next
  assume "token \<noteq> ''''"
  then show "fst (getClient env f ctx serial token) \<noteq> Inl (RequiredFlag ''ca-url'')"
    by (cases "ParseCaURLIfExists env ctx"; cases "ParseSigned env token";
        cases "UnsafeClaimsWithoutVerification env (projr (ParseSigned env token))")
       (auto simp: getClient_def Let_def)
qed

text \<open>
  The theorem on the sample command line, which has no CA URL: without a token the
  flag is demanded, with the token \<open>plain-123\<close> it is not.
\<close>

theorem getClient_ca_url_required_witness:
  "\<not> offline online
   \<and> ParseCaURLIfExists sample_env sample_ctx = Inr ''''
   \<and> getClient sample_env online sample_ctx ''123'' '''' = (Inl (RequiredFlag ''ca-url''), [])
   \<and> fst (getClient sample_env online sample_ctx ''123'' ''plain-123'')
       \<noteq> Inl (RequiredFlag ''ca-url'')"
proof -
  have h1: "\<not> offline online" by code_simp
  have h3: "ParseCaURLIfExists sample_env sample_ctx = Inr ''''" by code_simp
  note T = getClient_ca_url_required [of online sample_env sample_ctx]
  have "getClient sample_env online sample_ctx ''123'' '''' = (Inl (RequiredFlag ''ca-url''), [])"
    using T [of "''123''" "''''"] h1 h3 by blast
  moreover have "fst (getClient sample_env online sample_ctx ''123'' ''plain-123'')
       \<noteq> Inl (RequiredFlag ''ca-url'')"
    using T [of "''123''" "''plain-123''"] by simp
  ultimately show ?thesis using h1 h3 by simp
qed

text \<open>
  C10. In online mode with a token present whose claims parse but carry no usable hint
  (empty fingerprint, empty audience, or a first audience entry that does not begin
  with \<open>http\<close> once lowercased), and with no CA URL supplied, the client resolver does
  not fail with the required-flag error for \<open>ca-url\<close>. Past the cross-check of subject
  and serial number it resolves the root file, the \<open>root\<close> flag or else the default
  path when that exists, and builds the online client with the empty string as CA
  URL; it fails with the required-flag error for \<open>root\<close> when neither is there. So
  every client it builds has the empty CA URL and that root file, and whenever it
  succeeds it has built one.
\<close>

theorem getClient_token_no_hint:
  assumes "\<not> offline f" and "token \<noteq> ''''"
    and "ParseCaURLIfExists env ctx = Inr ''''"
    and "ParseSigned env token = Inr tok"
    and "UnsafeClaimsWithoutVerification env tok = Inr cl"
    and "SHA cl = '''' \<or> Audience cl = []
         \<or> \<not> HasPrefix (ToLower (uni env) (Audience cl ! 0)) ''http''"
  shows "fst (getClient env f ctx serial token) \<noteq> Inl (RequiredFlag ''ca-url'')
         \<and> getClient env f ctx serial token =
             (if \<not> EqualFold (uni env) (Subject cl) serial
              then (Inl (TokenSubjectMismatch (Subject cl) serial), [])
              else if flag_root ctx \<noteq> ''''
              then (fst (newClient env '''' [WithRootFile (flag_root ctx)]),
                    [Ev_PrintSelected ''CA'' '''',
                     Ev_NewClient '''' [WithRootFile (flag_root ctx)]])
              else if Stat env (GetRootCAPath env)
              then (fst (newClient env '''' [WithRootFile (GetRootCAPath env)]),
                    [Ev_Stat (GetRootCAPath env), Ev_PrintSelected ''CA'' '''',
                     Ev_NewClient '''' [WithRootFile (GetRootCAPath env)]])
              else (Inl (RequiredFlag ''root''), [Ev_Stat (GetRootCAPath env)]))
         \<and> (\<forall>u options. Ev_NewClient u options \<in> set (snd (getClient env f ctx serial token)) \<longrightarrow>
               u = ''''
               \<and> options = [WithRootFile (if flag_root ctx \<noteq> '''' then flag_root ctx
                                          else GetRootCAPath env)])
         \<and> (\<forall>c. fst (getClient env f ctx serial token) = Inr c \<longrightarrow>
               Ev_NewClient '''' [WithRootFile (if flag_root ctx \<noteq> '''' then flag_root ctx
                                               else GetRootCAPath env)]
                 \<in> set (snd (getClient env f ctx serial token)))"
proof -
  let ?r = "if flag_root ctx \<noteq> '''' then flag_root ctx else GetRootCAPath env"
  have eq: "getClient env f ctx serial token =
             (if \<not> EqualFold (uni env) (Subject cl) serial
              then (Inl (TokenSubjectMismatch (Subject cl) serial), [])
              else if flag_root ctx \<noteq> ''''
              then (fst (newClient env '''' [WithRootFile (flag_root ctx)]),
                    [Ev_PrintSelected ''CA'' '''',
                     Ev_NewClient '''' [WithRootFile (flag_root ctx)]])
              else if Stat env (GetRootCAPath env)
              then (fst (newClient env '''' [WithRootFile (GetRootCAPath env)]),
                    [Ev_Stat (GetRootCAPath env), Ev_PrintSelected ''CA'' '''',
                     Ev_NewClient '''' [WithRootFile (GetRootCAPath env)]])
              else (Inl (RequiredFlag ''root''), [Ev_Stat (GetRootCAPath env)]))"
  proof -
    from assms(6) have nh: "\<not> (SHA cl \<noteq> '''' \<and> Audience cl \<noteq> []
        \<and> HasPrefix (ToLower (uni env) (Audience cl ! 0)) ''http'')"
      by blast
    show ?thesis
      by (simp only: getClient_token [OF assms(1-5)] nh if_False)
  qed
  have 1: "fst (getClient env f ctx serial token) \<noteq> Inl (RequiredFlag ''ca-url'')"
    by (simp add: eq)
  have 2: "\<forall>u options. Ev_NewClient u options \<in> set (snd (getClient env f ctx serial token)) \<longrightarrow>
               u = '''' \<and> options = [WithRootFile ?r]"
    by (simp add: eq)
  have 3: "\<forall>c. fst (getClient env f ctx serial token) = Inr c \<longrightarrow>
               Ev_NewClient '''' [WithRootFile ?r] \<in> set (snd (getClient env f ctx serial token))"
    by (simp add: eq)
  show ?thesis by (rule conjI [OF 1 conjI [OF eq conjI [OF 2 3]]])
qed

text \<open>
  The theorem on the sample token \<open>plain-123\<close>, which has no fingerprint: the default
  root file is found and the client is built with an empty CA URL.
\<close>

theorem getClient_token_no_hint_witness:
  "getClient sample_env online sample_ctx ''123'' ''plain-123'' =
     (Inr (OnlineClient ''client''),
      [Ev_Stat ''root_ca.crt'', Ev_PrintSelected ''CA'' '''',
       Ev_NewClient '''' [WithRootFile ''root_ca.crt'']])"
proof -
  have h1: "\<not> offline online" by code_simp
  have h2: "''plain-123'' \<noteq> ''''" by simp
  have h3: "ParseCaURLIfExists sample_env sample_ctx = Inr ''''" by code_simp
  have h4: "ParseSigned sample_env ''plain-123'' = Inr ''plain-123''" by code_simp
  have h5: "UnsafeClaimsWithoutVerification sample_env ''plain-123'' = Inr plain_claims"
    by (simp add: sample_env_def)
  have h6: "SHA plain_claims = '''' \<or> Audience plain_claims = []
         \<or> \<not> HasPrefix (ToLower (uni sample_env) (Audience plain_claims ! 0)) ''http''"
    by (simp add: plain_claims_def)
  have e: "EqualFold (uni sample_env) (Subject plain_claims) ''123''" by code_simp
  have r: "flag_root sample_ctx = ''''" "GetRootCAPath sample_env = ''root_ca.crt''"
    "Stat sample_env ''root_ca.crt''"
    by (simp_all add: sample_ctx_def sample_env_def)
  have n: "fst (newClient sample_env '''' [WithRootFile ''root_ca.crt'']) = Inr (OnlineClient ''client'')"
    by code_simp
  note T = getClient_token_no_hint [OF h1 h2 h3 h4 h5 h6, of "''123''"]
  show ?thesis
    using T [THEN conjunct2, THEN conjunct1] e r n by simp
qed

section \<open>The dispatch step\<close>







section \<open>The checks of the command\<close>

text \<open>
  C5 (as amended). With offline mode and a non-empty token flag together the command
  fails without a single effect, so before any file access: with the error of the
  reason code when the \<open>reasonCode\<close> flag is not valid, and with the
  incompatible-flags error for \<open>offline\<close> and \<open>token\<close> otherwise.
\<close>

theorem offline_token_incompatible:
  assumes "flag_offline ctx" and "flag_token ctx \<noteq> ''''"
  shows "snd (revokeCertificateAction env ctx) = []
         \<and> (\<forall>n. ReasonCodeToNum (uni env) (flag_reasonCode ctx) = Inr n \<longrightarrow>
               fst (revokeCertificateAction env ctx)
                 = Inl (IncompatibleFlagWithFlag ''offline'' ''token''))
         \<and> (\<forall>e. ReasonCodeToNum (uni env) (flag_reasonCode ctx) = Inl e \<longrightarrow>
               fst (revokeCertificateAction env ctx) = Inl e)"
  using assms
  by (cases "ReasonCodeToNum (uni env) (flag_reasonCode ctx)")
     (simp_all add: revokeCertificateAction_alt)

text \<open>The theorem on the sample command line with \<open>--offline\<close> and a token.\<close>

theorem offline_token_incompatible_witness:
  "revokeCertificateAction sample_env
     (sample_ctx\<lparr>flag_offline := True, flag_token := ''boot-123''\<rparr>)
     = (Inl (IncompatibleFlagWithFlag ''offline'' ''token''), [])"
proof -
  let ?ctx = "sample_ctx\<lparr>flag_offline := True, flag_token := ''boot-123''\<rparr>"
  have h1: "flag_offline ?ctx" by simp
  have h2: "flag_token ?ctx \<noteq> ''''" by simp
  have r: "ReasonCodeToNum (uni sample_env) (flag_reasonCode ?ctx) = Inr 0" by code_simp
  from offline_token_incompatible [OF h1 h2, of sample_env] r
  have "snd (revokeCertificateAction sample_env ?ctx) = []"
    and "fst (revokeCertificateAction sample_env ?ctx)
           = Inl (IncompatibleFlagWithFlag ''offline'' ''token'')"
    by blast+
  then show ?thesis by (simp add: prod_eq_iff)
qed

text \<open>
  The claim as first stated fails when the reason code is not valid: the command then
  fails with the error of the reason code.
\<close>

theorem offline_token_reason_counterexample:
  "revokeCertificateAction sample_env
     (sample_ctx\<lparr>flag_offline := True, flag_token := ''boot-123'', flag_reasonCode := ''bogus''\<rparr>)
     = (Inl (UnrecognizedReasonCode ''bogus''), [])"
  by code_simp

subsection \<open>The certificate branch\<close>

lemma serialAndToken_cert:
  assumes "flag_cert ctx \<noteq> '''' \<or> flag_key ctx \<noteq> ''''"
    and "fst (serialAndToken env ctx flow) = Inr (serial, token)"
  shows "Args ctx = [] \<and> flag_cert ctx \<noteq> '''' \<and> flag_key ctx \<noteq> '''' \<and> token = flag_token ctx
         \<and> (\<exists>crt rest. ReadCertificateBundle env (flag_cert ctx) = Inr (crt # rest)
                \<and> serial = Itoa (SerialNumber crt))"
  using assms
  by (auto simp: serialAndToken_def Let_def NArg_def run_simps
           split: if_splits sum.splits list.splits)

lemma serialAndToken_positional:
  assumes "flag_cert ctx \<noteq> '''' \<or> flag_key ctx \<noteq> ''''" and "Args ctx \<noteq> []"
  shows "serialAndToken env ctx flow
           = (Inl (NoPositionalArguments (App_Name ctx) (Command_Name ctx)), [])"
  using assms by (auto simp: serialAndToken_def Let_def NArg_def fail_def)

lemma serialAndToken_one_missing:
  assumes "(flag_cert ctx = '''') \<noteq> (flag_key ctx = '''')" and "Args ctx = []"
  shows "serialAndToken env ctx flow
           = (Inl (if flag_key ctx = '''' then RequiredWithFlag ''cert'' ''key''
                   else RequiredWithFlag ''key'' ''cert''), [])"
  using assms by (auto simp: serialAndToken_def Let_def NArg_def fail_def)

text \<open>When the branch fails for every flow, the command fails and dispatches nothing.\<close>

lemma action_fails_with_branch:
  assumes "\<And>flow. \<exists>e. fst (serialAndToken env ctx flow) = Inl e"
  shows "(\<exists>e. fst (revokeCertificateAction env ctx) = Inl e)
         \<and> (\<forall>ev \<in> set (snd (revokeCertificateAction env ctx)). \<not> dispatch ev)"
proof
  show "\<exists>e. fst (revokeCertificateAction env ctx) = Inl e"
  proof (cases "ReasonCodeToNum (uni env) (flag_reasonCode ctx)")
    case (Inl err)
    then show ?thesis by (simp add: revokeCertificateAction_alt)
  next
    case (Inr n)
    show ?thesis
    proof (cases "fst (newRevokeFlow env ctx (flag_cert ctx) (flag_key ctx))")
      case (Inl err)
      with Inr show ?thesis by (simp add: revokeCertificateAction_alt fst_andThen)
    next
      case flow: (Inr flow)
      from assms obtain e where "fst (serialAndToken env ctx flow) = Inl e" by blast
      with Inr flow show ?thesis by (simp add: revokeCertificateAction_alt fst_andThen)
    qed
  qed
  show "\<forall>ev \<in> set (snd (revokeCertificateAction env ctx)). \<not> dispatch ev"
  proof
    fix ev assume a: "ev \<in> set (snd (revokeCertificateAction env ctx))"
    show "\<not> dispatch ev"
    proof
      assume "dispatch ev"
      then obtain c req tr where "ev = Ev_ClientRevoke c req tr" by (cases ev) auto
      with a obtain flow serial token
        where "fst (serialAndToken env ctx flow) = Inr (serial, token)"
        using action_dispatch_event by blast
      with assms [of flow] show False by auto
    qed
  qed
qed

text \<open>
  C6. When a certificate path or a key path is supplied: with a positional argument the
  command fails and dispatches no request (in online mode with a valid reason code the
  error is the one about positional arguments, raised before any effect); and every
  request the command dispatches was made without positional arguments and carries as
  serial number the decimal serial number of the first certificate of the bundle read
  from the certificate path.
\<close>

theorem cert_branch_serial:
  assumes "flag_cert ctx \<noteq> '''' \<or> flag_key ctx \<noteq> ''''"
  shows "(Args ctx \<noteq> [] \<longrightarrow>
            (\<exists>e. fst (revokeCertificateAction env ctx) = Inl e)
            \<and> (\<forall>ev \<in> set (snd (revokeCertificateAction env ctx)). \<not> dispatch ev))
         \<and> (Args ctx \<noteq> [] \<and> \<not> flag_offline ctx
              \<and> (\<exists>n. ReasonCodeToNum (uni env) (flag_reasonCode ctx) = Inr n) \<longrightarrow>
            revokeCertificateAction env ctx
              = (Inl (NoPositionalArguments (App_Name ctx) (Command_Name ctx)), []))
         \<and> (\<forall>c req tr. Ev_ClientRevoke c req tr \<in> set (snd (revokeCertificateAction env ctx)) \<longrightarrow>
               Args ctx = []
               \<and> (\<exists>crt rest. ReadCertificateBundle env (flag_cert ctx) = Inr (crt # rest)
                      \<and> Serial req = Itoa (SerialNumber crt)))"
proof -
  have 1: "Args ctx \<noteq> [] \<longrightarrow>
            (\<exists>e. fst (revokeCertificateAction env ctx) = Inl e)
            \<and> (\<forall>ev \<in> set (snd (revokeCertificateAction env ctx)). \<not> dispatch ev)"
  proof
    assume "Args ctx \<noteq> []"
    then have "\<And>flow. \<exists>e. fst (serialAndToken env ctx flow) = Inl e"
      using serialAndToken_positional [OF assms] by simp
    then show "(\<exists>e. fst (revokeCertificateAction env ctx) = Inl e)
         \<and> (\<forall>ev \<in> set (snd (revokeCertificateAction env ctx)). \<not> dispatch ev)"
      by (rule action_fails_with_branch)
  qed
  have 2: "Args ctx \<noteq> [] \<and> \<not> flag_offline ctx
              \<and> (\<exists>n. ReasonCodeToNum (uni env) (flag_reasonCode ctx) = Inr n) \<longrightarrow>
            revokeCertificateAction env ctx
              = (Inl (NoPositionalArguments (App_Name ctx) (Command_Name ctx)), [])"
  proof
    assume a: "Args ctx \<noteq> [] \<and> \<not> flag_offline ctx
              \<and> (\<exists>n. ReasonCodeToNum (uni env) (flag_reasonCode ctx) = Inr n)"
    then obtain n where "ReasonCodeToNum (uni env) (flag_reasonCode ctx) = Inr n" by blast
    with a show "revokeCertificateAction env ctx
              = (Inl (NoPositionalArguments (App_Name ctx) (Command_Name ctx)), [])"
      using serialAndToken_positional [OF assms]
      by (simp add: revokeCertificateAction_alt newRevokeFlow_def)
  qed
  have 3: "\<forall>c req tr. Ev_ClientRevoke c req tr \<in> set (snd (revokeCertificateAction env ctx)) \<longrightarrow>
               Args ctx = []
               \<and> (\<exists>crt rest. ReadCertificateBundle env (flag_cert ctx) = Inr (crt # rest)
                      \<and> Serial req = Itoa (SerialNumber crt))"
  proof (intro allI impI)
    fix c req tr
    assume "Ev_ClientRevoke c req tr \<in> set (snd (revokeCertificateAction env ctx))"
    then obtain flow serial token
      where s: "fst (serialAndToken env ctx flow) = Inr (serial, token)"
        and d: "Ev_ClientRevoke c req tr \<in> set (snd (Revoke env flow ctx serial token))"
      using action_dispatch_event by blast
    note b = serialAndToken_cert [OF assms s]
    from Revoke_dispatch_event [OF d]
    have q: "req = \<lparr>Serial = serial, Reason = flag_reason ctx, ReasonCode = ReasonCode req,
                OTT = token, Passive = True\<rparr>" by blast
    have "Serial req = serial" by (subst q) simp
    with b show "Args ctx = []
                 \<and> (\<exists>crt rest. ReadCertificateBundle env (flag_cert ctx) = Inr (crt # rest)
                        \<and> Serial req = Itoa (SerialNumber crt))"
      by auto
  qed
  from 1 2 3 show ?thesis by blast
qed

text \<open>
  The theorem on the sample certificate and key: with a positional argument the command
  fails at once, without one the request carries the serial number 123 of the
  certificate in \<open>leaf.crt\<close>.
\<close>

theorem cert_branch_serial_witness:
  "revokeCertificateAction sample_env
     (sample_ctx\<lparr>Args := [''999''], flag_cert := ''leaf.crt'', flag_key := ''leaf.key''\<rparr>)
     = (Inl (NoPositionalArguments ''step'' ''revoke''), [])
   \<and> ReadCertificateBundle sample_env ''leaf.crt'' = Inr [\<lparr>SerialNumber = 123\<rparr>]
   \<and> (\<exists>c req tr. Ev_ClientRevoke c req tr \<in> set (snd (revokeCertificateAction sample_env
          (sample_ctx\<lparr>flag_cert := ''leaf.crt'', flag_key := ''leaf.key'',
                      flag_ca_url := ''https://ca.example''\<rparr>)))
        \<and> Serial req = ''123'')"
proof -
  let ?bad = "sample_ctx\<lparr>Args := [''999''], flag_cert := ''leaf.crt'', flag_key := ''leaf.key''\<rparr>"
  let ?ok = "sample_ctx\<lparr>flag_cert := ''leaf.crt'', flag_key := ''leaf.key'',
                      flag_ca_url := ''https://ca.example''\<rparr>"
  have h: "flag_cert ?bad \<noteq> '''' \<or> flag_key ?bad \<noteq> ''''" by simp
  have h': "flag_cert ?ok \<noteq> '''' \<or> flag_key ?ok \<noteq> ''''" by simp
  have p: "Args ?bad \<noteq> [] \<and> \<not> flag_offline ?bad
       \<and> (\<exists>n. ReasonCodeToNum (uni sample_env) (flag_reasonCode ?bad) = Inr n)"
  proof -
    have "ReasonCodeToNum (uni sample_env) (flag_reasonCode ?bad) = Inr 0" by code_simp
    moreover have "Args ?bad \<noteq> [] \<and> \<not> flag_offline ?bad" by (simp add: sample_ctx_def)
    ultimately show ?thesis by blast
  qed
  have names: "App_Name ?bad = ''step''" "Command_Name ?bad = ''revoke''"
    by (simp_all add: sample_ctx_def)
  have b: "ReadCertificateBundle sample_env ''leaf.crt'' = Inr [\<lparr>SerialNumber = 123\<rparr>]"
    by code_simp
  have i: "Itoa 123 = ''123''" by code_simp
  have f: "flag_cert ?ok = ''leaf.crt''" by simp
  have d: "Ev_ClientRevoke (OnlineClient ''client'')
       \<lparr>Serial = ''123'', Reason = '''', ReasonCode = 0, OTT = '''', Passive = True\<rparr>
       (Some \<lparr>Proxy = ProxyFromEnvironment,
              TLSClientConfig = \<lparr>RootCAs = ''pool'', PreferServerCipherSuites = True,
                                 Certificates = [\<lparr>Certificate = [''pem'']\<rparr>]\<rparr>\<rparr>)
      \<in> set (snd (revokeCertificateAction sample_env ?ok))"
    by code_simp
  from cert_branch_serial [OF h, of sample_env] p names
  have 1: "revokeCertificateAction sample_env ?bad
             = (Inl (NoPositionalArguments ''step'' ''revoke''), [])"
    by simp
  let ?req = "\<lparr>Serial = ''123'', Reason = '''', ReasonCode = 0, OTT = '''', Passive = True\<rparr>"
  from cert_branch_serial [OF h', of sample_env] d
  obtain crt rest where "ReadCertificateBundle sample_env (flag_cert ?ok) = Inr (crt # rest)"
    and "Serial ?req = Itoa (SerialNumber crt)"
    by blast
  with b i f have "Serial ?req = ''123''"
    by simp
  with d have "\<exists>c req tr. Ev_ClientRevoke c req tr
        \<in> set (snd (revokeCertificateAction sample_env ?ok)) \<and> Serial req = ''123''"
    by blast
  with 1 b show ?thesis by simp
qed

text \<open>
  C7 (as amended). When exactly one of the certificate path and the key path is
  supplied the command fails and dispatches no request. When, in addition, no
  positional argument is given, the reason code is valid, offline mode is not combined
  with a token and the flow is constructed (which in online mode it always is), the
  error is the required-with error naming the missing counterpart: \<open>--cert\<close> requires
  \<open>--key\<close> when the key is missing, \<open>--key\<close> requires \<open>--cert\<close> when the certificate
  is missing.
\<close>

theorem cert_key_required_together:
  assumes "(flag_cert ctx = '''') \<noteq> (flag_key ctx = '''')"
  shows "(\<exists>e. fst (revokeCertificateAction env ctx) = Inl e)
         \<and> (\<forall>ev \<in> set (snd (revokeCertificateAction env ctx)). \<not> dispatch ev)
         \<and> (\<forall>n flow t. Args ctx = []
               \<and> ReasonCodeToNum (uni env) (flag_reasonCode ctx) = Inr n
               \<and> \<not> (flag_offline ctx \<and> flag_token ctx \<noteq> '''')
               \<and> newRevokeFlow env ctx (flag_cert ctx) (flag_key ctx) = (Inr flow, t) \<longrightarrow>
               revokeCertificateAction env ctx
                 = (Inl (if flag_key ctx = '''' then RequiredWithFlag ''cert'' ''key''
                         else RequiredWithFlag ''key'' ''cert''), t))
         \<and> (Args ctx = [] \<and> \<not> flag_offline ctx
              \<and> (\<exists>n. ReasonCodeToNum (uni env) (flag_reasonCode ctx) = Inr n) \<longrightarrow>
               revokeCertificateAction env ctx
                 = (Inl (if flag_key ctx = '''' then RequiredWithFlag ''cert'' ''key''
                         else RequiredWithFlag ''key'' ''cert''), []))"
proof -
  have one: "flag_cert ctx \<noteq> '''' \<or> flag_key ctx \<noteq> ''''" using assms by auto
  have "\<And>flow. \<exists>e. fst (serialAndToken env ctx flow) = Inl e"
  proof -
    fix flow show "\<exists>e. fst (serialAndToken env ctx flow) = Inl e"
      using serialAndToken_positional [OF one, of env flow]
        serialAndToken_one_missing [OF assms, of env flow]
      by (cases "Args ctx = []") simp_all
  qed
  then have f: "(\<exists>e. fst (revokeCertificateAction env ctx) = Inl e)
         \<and> (\<forall>ev \<in> set (snd (revokeCertificateAction env ctx)). \<not> dispatch ev)"
    by (rule action_fails_with_branch)
  have g: "\<forall>n flow t. Args ctx = []
               \<and> ReasonCodeToNum (uni env) (flag_reasonCode ctx) = Inr n
               \<and> \<not> (flag_offline ctx \<and> flag_token ctx \<noteq> '''')
               \<and> newRevokeFlow env ctx (flag_cert ctx) (flag_key ctx) = (Inr flow, t) \<longrightarrow>
               revokeCertificateAction env ctx
                 = (Inl (if flag_key ctx = '''' then RequiredWithFlag ''cert'' ''key''
                         else RequiredWithFlag ''key'' ''cert''), t)"
    using serialAndToken_one_missing [OF assms]
    by (auto simp: revokeCertificateAction_alt)
  have "\<not> flag_offline ctx \<Longrightarrow>
      newRevokeFlow env ctx (flag_cert ctx) (flag_key ctx)
        = (Inr \<lparr>offlineCA = None, offline = False\<rparr>, [])"
    by (simp add: newRevokeFlow_def ret_def)
  with g have h: "Args ctx = [] \<and> \<not> flag_offline ctx
              \<and> (\<exists>n. ReasonCodeToNum (uni env) (flag_reasonCode ctx) = Inr n) \<longrightarrow>
               revokeCertificateAction env ctx
                 = (Inl (if flag_key ctx = '''' then RequiredWithFlag ''cert'' ''key''
                         else RequiredWithFlag ''key'' ''cert''), [])"
    by blast
  from f g h show ?thesis by blast
qed

text \<open>
  The theorem on the sample command line with \<open>--cert\<close> alone: the error names \<open>key\<close>
  as the flag that \<open>--cert\<close> requires.
\<close>

theorem cert_key_required_together_witness:
  "revokeCertificateAction sample_env (sample_ctx\<lparr>flag_cert := ''leaf.crt''\<rparr>)
     = (Inl (RequiredWithFlag ''cert'' ''key''), [])"
proof -
  let ?ctx = "sample_ctx\<lparr>flag_cert := ''leaf.crt''\<rparr>"
  have h: "(flag_cert ?ctx = '''') \<noteq> (flag_key ?ctx = '''')" by (simp add: sample_ctx_def)
  have r: "ReasonCodeToNum (uni sample_env) (flag_reasonCode ?ctx) = Inr 0" by code_simp
  have p: "Args ?ctx = [] \<and> \<not> flag_offline ?ctx" "flag_key ?ctx = ''''"
    by (simp_all add: sample_ctx_def)
  from cert_key_required_together [OF h, of sample_env] r p show ?thesis by auto
qed

text \<open>
  The claim as first stated fails when a positional argument comes with \<open>--cert\<close>
  alone: the command fails with the error about positional arguments.
\<close>

theorem cert_alone_positional_counterexample:
  "revokeCertificateAction sample_env (sample_ctx\<lparr>Args := [''123''], flag_cert := ''leaf.crt''\<rparr>)
     = (Inl (NoPositionalArguments ''step'' ''revoke''), [])"
  by code_simp

subsection \<open>A token next to a certificate\<close>

text \<open>No function of the flow returns the incompatible-flags error for \<open>cert\<close>.\<close>

lemma ReasonCodeToNum_not_incompatible:
  "ReasonCodeToNum U rc \<noteq> Inl (IncompatibleFlagWithFlag a b)"
  by (auto simp: ReasonCodeToNum_def split: option.splits if_splits)

lemma getClient_not_incompatible:
  "fst (getClient env f ctx serial token) \<noteq> Inl (IncompatibleFlagWithFlag a b)"
  by (cases "ParseCaURLIfExists env ctx"; cases "ParseSigned env token";
      cases "UnsafeClaimsWithoutVerification env (projr (ParseSigned env token))")
     (auto simp: getClient_def Let_def newClient_eq split: sum.splits)

lemma transportFor_not_incompatible:
  "fst (transportFor env ctx token) \<noteq> Inl (IncompatibleFlagWithFlag a b)"
  by (auto simp: transportFor_def Let_def run_simps split: sum.splits if_splits)

lemma newRevokeFlow_not_incompatible:
  "fst (newRevokeFlow env ctx certFile keyFile) \<noteq> Inl (IncompatibleFlagWithFlag a b)"
  by (auto simp: newRevokeFlow_def Let_def run_simps split: sum.splits if_splits)

lemma GenerateToken_not_incompatible:
  "fst (GenerateToken env f ctx subject) \<noteq> Inl (IncompatibleFlagWithFlag a b)"
  by (auto simp: GenerateToken_def Let_def run_simps split: sum.splits if_splits option.splits)

lemma NumberOfArguments_not_incompatible:
  "NumberOfArguments ctx k \<noteq> Some (IncompatibleFlagWithFlag a b)"
  by (auto simp: NumberOfArguments_def Let_def)

lemma serialAndToken_not_incompatible:
  "fst (serialAndToken env ctx flow) \<noteq> Inl (IncompatibleFlagWithFlag a b)"
  using GenerateToken_not_incompatible [of env flow ctx "Get (Args ctx) 0" a b]
    NumberOfArguments_not_incompatible [of ctx 1 a b]
  by (auto simp: serialAndToken_def Let_def run_simps
           split: sum.splits if_splits option.splits list.splits prod.splits)

lemma Revoke_not_incompatible:
  "fst (Revoke env f ctx serial token) \<noteq> Inl (IncompatibleFlagWithFlag a b)"
  using getClient_not_incompatible [of env f ctx serial token a b]
    transportFor_not_incompatible [of env ctx token a b]
    ReasonCodeToNum_not_incompatible [of "uni env" "flag_reasonCode ctx" a b]
  by (auto simp: Revoke_alt run_simps split: sum.splits)

lemma action_not_cert_incompatible:
  "fst (revokeCertificateAction env ctx) \<noteq> Inl (IncompatibleFlagWithFlag ''cert'' b)"
proof (cases "ReasonCodeToNum (uni env) (flag_reasonCode ctx)")
  case (Inl err)
  then show ?thesis
    using ReasonCodeToNum_not_incompatible [of "uni env" "flag_reasonCode ctx" "''cert''" b]
    by (simp add: revokeCertificateAction_alt)
next
  case (Inr n)
  show ?thesis
  proof (cases "flag_offline ctx \<and> flag_token ctx \<noteq> ''''")
    case True
    with Inr show ?thesis by (simp add: revokeCertificateAction_alt)
  next
    case False
    show ?thesis
    proof (cases "fst (newRevokeFlow env ctx (flag_cert ctx) (flag_key ctx))")
      case (Inl err)
      with Inr False show ?thesis
        using newRevokeFlow_not_incompatible [of env ctx "flag_cert ctx" "flag_key ctx" "''cert''" b]
        by (simp add: revokeCertificateAction_alt fst_andThen)
    next
      case flow: (Inr flow)
      show ?thesis
      proof (cases "fst (serialAndToken env ctx flow)")
        case (Inl err)
        with Inr False flow show ?thesis
          using serialAndToken_not_incompatible [of env ctx flow "''cert''" b]
          by (simp add: revokeCertificateAction_alt fst_andThen)
      next
        case st: (Inr st)
        obtain serial token where "st = (serial, token)" by (cases st)
        with Inr False flow st show ?thesis
          using Revoke_not_incompatible [of env flow ctx serial token "''cert''" b]
          by (auto simp: revokeCertificateAction_alt fst_andThen split: sum.splits)
      qed
    qed
  qed
qed

text \<open>
  C9. The command never fails with the incompatible-flags error for \<open>cert\<close>: the value
  of that check is dropped. With a token next to a certificate path and a key path (no
  positional argument, online mode, a valid reason code) the command goes on with the
  certificate branch: it reads the bundle, takes the serial number of its first
  certificate and calls \<open>Revoke\<close> with that serial number and the token.
\<close>

theorem cert_with_token_proceeds:
  "(\<forall>b. fst (revokeCertificateAction env ctx) \<noteq> Inl (IncompatibleFlagWithFlag ''cert'' b))
   \<and> (flag_cert ctx \<noteq> '''' \<and> flag_key ctx \<noteq> '''' \<and> flag_token ctx \<noteq> '''' \<and> Args ctx = []
        \<and> \<not> flag_offline ctx
        \<and> (\<exists>n. ReasonCodeToNum (uni env) (flag_reasonCode ctx) = Inr n) \<longrightarrow>
      revokeCertificateAction env ctx =
        andThen (perform (Ev_ReadCertificateBundle (flag_cert ctx))
                   ''pemutil.ReadCertificateBundle''
                   (ReadCertificateBundle env (flag_cert ctx))) (\<lambda>cert.
        case cert of
          [] \<Rightarrow> fail (Panic ''index out of range'')
        | c # _ \<Rightarrow>
            andThen (Revoke env \<lparr>offlineCA = None, offline = False\<rparr> ctx
                       (Itoa (SerialNumber c)) (flag_token ctx)) (\<lambda>_.
            emit (Ev_Printf (revokedMessage (Itoa (SerialNumber c)))))))"
proof (intro conjI allI impI)
  fix b show "fst (revokeCertificateAction env ctx) \<noteq> Inl (IncompatibleFlagWithFlag ''cert'' b)"
    by (rule action_not_cert_incompatible)
next
  assume a: "flag_cert ctx \<noteq> '''' \<and> flag_key ctx \<noteq> '''' \<and> flag_token ctx \<noteq> '''' \<and> Args ctx = []
        \<and> \<not> flag_offline ctx
        \<and> (\<exists>n. ReasonCodeToNum (uni env) (flag_reasonCode ctx) = Inr n)"
  then obtain n where n: "ReasonCodeToNum (uni env) (flag_reasonCode ctx) = Inr n" by blast
  have flow: "newRevokeFlow env ctx (flag_cert ctx) (flag_key ctx)
        = (Inr \<lparr>offlineCA = None, offline = False\<rparr>, [])"
    using a by (simp add: newRevokeFlow_def ret_def)
  have st: "serialAndToken env ctx \<lparr>offlineCA = None, offline = False\<rparr> =
      andThen (perform (Ev_ReadCertificateBundle (flag_cert ctx))
                   ''pemutil.ReadCertificateBundle''
                   (ReadCertificateBundle env (flag_cert ctx))) (\<lambda>cert.
        case cert of
          [] \<Rightarrow> fail (Panic ''index out of range'')
        | c # _ \<Rightarrow> ret (Itoa (SerialNumber c), flag_token ctx))"
    using a by (simp add: serialAndToken_def Let_def NArg_def)
  show "revokeCertificateAction env ctx =
        andThen (perform (Ev_ReadCertificateBundle (flag_cert ctx))
                   ''pemutil.ReadCertificateBundle''
                   (ReadCertificateBundle env (flag_cert ctx))) (\<lambda>cert.
        case cert of
          [] \<Rightarrow> fail (Panic ''index out of range'')
        | c # _ \<Rightarrow>
            andThen (Revoke env \<lparr>offlineCA = None, offline = False\<rparr> ctx
                       (Itoa (SerialNumber c)) (flag_token ctx)) (\<lambda>_.
            emit (Ev_Printf (revokedMessage (Itoa (SerialNumber c))))))"
  proof (cases "ReadCertificateBundle env (flag_cert ctx)")
    case (Inl m)
    with a n flow st show ?thesis by (simp add: revokeCertificateAction_alt)
  next
    case (Inr certs)
    with a n flow st show ?thesis
      by (cases certs) (simp_all add: revokeCertificateAction_alt fail_def ret_def)
  qed
qed

text \<open>
  The theorem on the sample certificate and key together with the token \<open>boot-123\<close>:
  the command reads the bundle and dispatches the request with the token and without
  a transport.
\<close>

theorem cert_with_token_proceeds_witness:
  "revokeCertificateAction sample_env
     (sample_ctx\<lparr>flag_cert := ''leaf.crt'', flag_key := ''leaf.key'', flag_token := ''boot-123''\<rparr>)
   = (Inr (),
      [Ev_ReadCertificateBundle ''leaf.crt'',
       Ev_PrintSelected ''CA'' ''https://ca.example/revoke'',
       Ev_NewClient ''https://ca.example/revoke'' [WithRootSHA256 ''abc''],
       Ev_ClientRevoke (OnlineClient ''client'')
         \<lparr>Serial = ''123'', Reason = '''', ReasonCode = 0, OTT = ''boot-123'', Passive = True\<rparr>
         None,
       Ev_Printf (revokedMessage ''123'')])"
proof -
  let ?ctx = "sample_ctx\<lparr>flag_cert := ''leaf.crt'', flag_key := ''leaf.key'',
                         flag_token := ''boot-123''\<rparr>"
  have r: "ReasonCodeToNum (uni sample_env) (flag_reasonCode ?ctx) = Inr 0" by code_simp
  have p: "flag_cert ?ctx \<noteq> '''' \<and> flag_key ?ctx \<noteq> '''' \<and> flag_token ?ctx \<noteq> ''''
           \<and> Args ?ctx = [] \<and> \<not> flag_offline ?ctx"
    by (simp add: sample_ctx_def)
  have v: "andThen (perform (Ev_ReadCertificateBundle (flag_cert ?ctx))
                   ''pemutil.ReadCertificateBundle''
                   (ReadCertificateBundle sample_env (flag_cert ?ctx))) (\<lambda>cert.
        case cert of
          [] \<Rightarrow> fail (Panic ''index out of range'')
        | c # _ \<Rightarrow>
            andThen (Revoke sample_env \<lparr>offlineCA = None, offline = False\<rparr> ?ctx
                       (Itoa (SerialNumber c)) (flag_token ?ctx)) (\<lambda>_.
            emit (Ev_Printf (revokedMessage (Itoa (SerialNumber c))))))
     = (Inr (),
      [Ev_ReadCertificateBundle ''leaf.crt'',
       Ev_PrintSelected ''CA'' ''https://ca.example/revoke'',
       Ev_NewClient ''https://ca.example/revoke'' [WithRootSHA256 ''abc''],
       Ev_ClientRevoke (OnlineClient ''client'')
         \<lparr>Serial = ''123'', Reason = '''', ReasonCode = 0, OTT = ''boot-123'', Passive = True\<rparr>
         None,
       Ev_Printf (revokedMessage ''123'')])"
    by code_simp
  from cert_with_token_proceeds [of sample_env ?ctx] r p
  have "revokeCertificateAction sample_env ?ctx =
        andThen (perform (Ev_ReadCertificateBundle (flag_cert ?ctx))
                   ''pemutil.ReadCertificateBundle''
                   (ReadCertificateBundle sample_env (flag_cert ?ctx))) (\<lambda>cert.
        case cert of
          [] \<Rightarrow> fail (Panic ''index out of range'')
        | c # _ \<Rightarrow>
            andThen (Revoke sample_env \<lparr>offlineCA = None, offline = False\<rparr> ?ctx
                       (Itoa (SerialNumber c)) (flag_token ?ctx)) (\<lambda>_.
            emit (Ev_Printf (revokedMessage (Itoa (SerialNumber c))))))"
    by blast
  with v show ?thesis by simp
qed

end
